theory Spec2Isabelle
  imports Complex_Main "HOL-Library.Sublist"
begin

section \<open>Job documents and the job store\<close>

text \<open>
  The scraper keeps its jobs as documents of one MongoDB collection. The backend
  (\<^verbatim>\<open>backend/main.py\<close>) inserts and updates them through a REST API, the worker
  (\<^verbatim>\<open>worker/worker.py\<close>) polls the collection for pending jobs and writes their
  outcome back. Both sides use the same four status constants (class \<^verbatim>\<open>JobStatus\<close>).
\<close>

datatype job_status = PENDING | IN_PROGRESS | COMPLETED | FAILED

text \<open>
  Values of the schema-less payloads (\<^verbatim>\<open>Dict[str, Any]\<close>): a dictionary is an
  association list of keys and values. An \<^verbatim>\<open>ObjectId\<close> is an opaque number, a point in
  time (\<^verbatim>\<open>datetime.now\<close>, \<^verbatim>\<open>time.time\<close>) a real number of seconds.
\<close>

datatype json = JNull | JInt int | JStr string | JDict "(string \<times> json) list"

type_synonym dict = "(string \<times> json) list"
type_synonym job_id = nat
type_synonym timestamp = real

text \<open>The document that \<^verbatim>\<open>create_scrape_job\<close> inserts, with the \<^verbatim>\<open>_id\<close> the driver adds.\<close>

record job =
  jid :: job_id
  url :: string
  status :: job_status
  createdAt :: timestamp
  updatedAt :: timestamp
  completedAt :: "timestamp option"
  result :: "dict option"
  error :: "string option"
  options :: dict

text \<open>
  The collection holds the documents in insertion order. The store also records the
  operations issued against it, so that a statement can say which queries and which
  writes a piece of code performed.
\<close>

datatype store_op =
    OpFind nat
  | OpFindOne job_id
  | OpInsert job_id
  | OpUpdate job_id job_status

record store =
  docs :: "job list"
  ops :: "store_op list"

text \<open>
  The document of a \<^verbatim>\<open>$set\<close> update: status and \<^verbatim>\<open>updatedAt\<close> are always present,
  the other three keys only when the code put them into \<^verbatim>\<open>update_doc\<close>.
\<close>

record update_doc =
  set_status :: job_status
  set_updatedAt :: timestamp
  set_completedAt :: "timestamp option"
  set_result :: "dict option"
  set_error :: "string option"

definition apply_set :: "update_doc \<Rightarrow> job \<Rightarrow> job" where
  "apply_set u j =
     j\<lparr> status := set_status u,
        updatedAt := set_updatedAt u,
        completedAt := (case set_completedAt u of None \<Rightarrow> completedAt j | Some t \<Rightarrow> Some t),
        result := (case set_result u of None \<Rightarrow> result j | Some r \<Rightarrow> Some r),
        error := (case set_error u of None \<Rightarrow> error j | Some e \<Rightarrow> Some e) \<rparr>"

text \<open>
  \<^verbatim>\<open>update_one({"_id": job_id}, {"$set": update_doc})\<close>: the first document with that
  id is updated, whatever its current status; the filter names the id only.
\<close>

fun update_one :: "job_id \<Rightarrow> update_doc \<Rightarrow> job list \<Rightarrow> job list" where
  "update_one i u [] = []"
| "update_one i u (j # js) =
     (if jid j = i then apply_set u j # js else j # update_one i u js)"

fun find_one :: "job_id \<Rightarrow> job list \<Rightarrow> job option" where
  "find_one i [] = None"
| "find_one i (j # js) = (if jid j = i then Some j else find_one i js)"

text \<open>
  \<^verbatim>\<open>find({"status": "pending"}).sort("createdAt", 1).limit(n)\<close> followed by
  \<^verbatim>\<open>to_list(length=n)\<close>: the oldest \<open>n\<close> pending documents. Documents created at the
  same time stay in the order of their insertion.
\<close>

definition find_pending :: "nat \<Rightarrow> job list \<Rightarrow> job list" where
  "find_pending n js = take n (sort_key createdAt (filter (\<lambda>j. status j = PENDING) js))"

section \<open>The backend: creating and updating jobs\<close>

datatype http_error = HTTP_400 | HTTP_404 | HTTP_422 | HTTP_500

text \<open>
  What the handlers cannot decide by themselves is an oracle of the environment: whether
  the driver raises in \<^verbatim>\<open>insert_one\<close>, in the \<^verbatim>\<open>find_one\<close> that looks a job up, in
  \<^verbatim>\<open>update_one\<close>, and in the \<^verbatim>\<open>find_one\<close> that reads a job back after a write. Both
  handlers answer an exception of the driver with 500.
\<close>

record api_env =
  insert_raises :: bool
  lookup_raises :: bool
  write_raises :: bool
  read_back_raises :: bool

text \<open>
  A request body that pydantic cannot parse (a URL that is no \<^verbatim>\<open>HttpUrl\<close>, a missing
  field) is answered with 422 before any of the functions below runs. An error raised by
  one of the two validators of the source is different: the handler for validation errors
  puts \<^verbatim>\<open>exc.errors()\<close> into a \<^verbatim>\<open>JSONResponse\<close>, the entry of such an error carries the
  exception object itself, and the JSON encoder refuses it, so the answer is 500.
\<close>

definition validator_rejected :: http_error where
  "validator_rejected = HTTP_500"

text \<open>
  The validator of \<^verbatim>\<open>ScrapeJobRequest.url\<close> tests \<^verbatim>\<open>str(v)\<close>, the URL as \<^verbatim>\<open>HttpUrl\<close>
  has parsed and normalised it (lower-case scheme and host, a path): that string is the
  argument here, and it must start with one of the two schemes.
\<close>

definition validate_url :: "string \<Rightarrow> bool" where
  "validate_url u = (prefix ''http://'' u \<or> prefix ''https://'' u)"

text \<open>
  \<^verbatim>\<open>create_scrape_job\<close>: the new document is pending, with no result and no error; its
  URL is \<^verbatim>\<open>str(job_request.url)\<close>, the normalised string again. The fresh \<^verbatim>\<open>_id\<close> is
  chosen by the driver and the time by the clock, so both are arguments; the collection's
  unique index on \<^verbatim>\<open>_id\<close> makes the insertion of an id that is already there raise. The
  job is read back with \<^verbatim>\<open>find_one\<close>.
\<close>

definition create_scrape_job ::
  "api_env \<Rightarrow> job_id \<Rightarrow> timestamp \<Rightarrow> string \<Rightarrow> dict option \<Rightarrow> store
     \<Rightarrow> (http_error + job) \<times> store" where
  "create_scrape_job ae new_id now u opts st =
     (if \<not> validate_url u then (Inl validator_rejected, st)
      else if insert_raises ae \<or> find_one new_id (docs st) \<noteq> None then
        (Inl HTTP_500, st\<lparr> ops := ops st @ [OpInsert new_id] \<rparr>)
      else
        let job_doc = \<lparr> jid = new_id, url = u, status = PENDING, createdAt = now,
                         updatedAt = now, completedAt = None, result = None, error = None,
                         options = (case opts of None \<Rightarrow> [] | Some d \<Rightarrow> d) \<rparr>;
            st' = st\<lparr> docs := docs st @ [job_doc],
                      ops := ops st @ [OpInsert new_id, OpFindOne new_id] \<rparr>
        in if read_back_raises ae then (Inl HTTP_500, st')
           else (case find_one new_id (docs st') of
                   None \<Rightarrow> (Inl HTTP_500, st')
                 | Some created \<Rightarrow> (Inr created, st')))"

text \<open>
  The validator of \<^verbatim>\<open>JobUpdateRequest.status\<close>: one of the four constants, anything
  else raises in the validator.
\<close>

definition validate_status :: "string \<Rightarrow> job_status option" where
  "validate_status v =
     (if v = ''pending'' then Some PENDING
      else if v = ''in_progress'' then Some IN_PROGRESS
      else if v = ''completed'' then Some COMPLETED
      else if v = ''failed'' then Some FAILED
      else None)"

record job_update_request =
  req_status :: string
  req_result :: "dict option"
  req_error :: "string option"

text \<open>
  \<^verbatim>\<open>get_job_by_id\<close>: 400 for a string that is no \<^verbatim>\<open>ObjectId\<close>, 404 for an id without
  document. \<^verbatim>\<open>ObjectId.is_valid\<close> and the conversion belong to the driver; they are the
  argument \<open>oid\<close>, which gives the id of a well-formed string. The function lets an
  exception of \<^verbatim>\<open>find_one\<close> pass, and each of its callers answers that with 500; the
  first argument says whether this \<^verbatim>\<open>find_one\<close> raises.
\<close>

definition get_job_by_id ::
  "bool \<Rightarrow> (string \<Rightarrow> job_id option) \<Rightarrow> string \<Rightarrow> store \<Rightarrow> (http_error + job) \<times> store" where
  "get_job_by_id raises oid s st =
     (case oid s of
        None \<Rightarrow> (Inl HTTP_400, st)
      | Some i \<Rightarrow>
          let st' = st\<lparr> ops := ops st @ [OpFindOne i] \<rparr>
          in if raises then (Inl HTTP_500, st')
             else (case find_one i (docs st) of
                     None \<Rightarrow> (Inl HTTP_404, st')
                   | Some j \<Rightarrow> (Inr j, st')))"

text \<open>
  \<^verbatim>\<open>update_job\<close> (PUT \<^verbatim>\<open>/jobs/{job_id}\<close>): after checking that the job exists, the
  requested status is written with the time of the call; \<^verbatim>\<open>completedAt\<close> is added for
  the two final statuses, \<^verbatim>\<open>result\<close> and \<^verbatim>\<open>error\<close> whenever the request carries them.
  The current status of the job is not looked at. The answer is the job as it is read back
  after the write; when that read fails, the write has been made all the same.
\<close>

definition update_job ::
  "api_env \<Rightarrow> (string \<Rightarrow> job_id option) \<Rightarrow> timestamp \<Rightarrow> string \<Rightarrow> job_update_request
     \<Rightarrow> store \<Rightarrow> (http_error + job) \<times> store" where
  "update_job ae oid now s req st =
     (case validate_status (req_status req) of
        None \<Rightarrow> (Inl validator_rejected, st)
      | Some new_status \<Rightarrow>
          (case get_job_by_id (lookup_raises ae) oid s st of
             (Inl e, st1) \<Rightarrow> (Inl e, st1)
           | (Inr _, st1) \<Rightarrow>
               (case oid s of
                  None \<Rightarrow> (Inl HTTP_500, st1)
                | Some i \<Rightarrow>
                    let u = \<lparr> set_status = new_status,
                              set_updatedAt = now,
                              set_completedAt =
                                (if new_status \<in> {COMPLETED, FAILED} then Some now else None),
                              set_result = req_result req,
                              set_error = req_error req \<rparr>;
                        st2 = st1\<lparr> docs := update_one i u (docs st1),
                                   ops := ops st1 @ [OpUpdate i new_status] \<rparr>
                    in if write_raises ae then
                         (Inl HTTP_500, st1\<lparr> ops := ops st1 @ [OpUpdate i new_status] \<rparr>)
                       else get_job_by_id (read_back_raises ae) oid s st2)))"

section \<open>The worker: writing a status\<close>

text \<open>
  What the worker cannot decide by itself is an oracle of the environment. For the store:
  whether the driver raises in \<^verbatim>\<open>find\<close> or in the \<^verbatim>\<open>update_one\<close> of a given job and
  status, and the two readings of the clock in that update.
\<close>

record store_env =
  find_raises :: bool
  update_raises :: "job_id \<Rightarrow> job_status \<Rightarrow> bool"
  update_times :: "job_id \<Rightarrow> job_status \<Rightarrow> timestamp \<times> timestamp"

text \<open>
  \<^verbatim>\<open>_update_job_status(job_id, status, result=None, error=None)\<close>. The tests
  \<^verbatim>\<open>if result:\<close> and \<^verbatim>\<open>if error:\<close> are Python truth tests: an empty dictionary and an
  empty string count as absent. A failure of the driver is logged and swallowed.
\<close>

definition build_update_doc ::
  "timestamp \<times> timestamp \<Rightarrow> job_status \<Rightarrow> dict option \<Rightarrow> string option \<Rightarrow> update_doc" where
  "build_update_doc ts new_status res err =
     \<lparr> set_status = new_status,
       set_updatedAt = fst ts,
       set_completedAt = (if new_status \<in> {COMPLETED, FAILED} then Some (snd ts) else None),
       set_result = (case res of None \<Rightarrow> None | Some r \<Rightarrow> if r = [] then None else Some r),
       set_error = (case err of None \<Rightarrow> None | Some e \<Rightarrow> if e = [] then None else Some e) \<rparr>"

definition update_job_status ::
  "store_env \<Rightarrow> job_id \<Rightarrow> job_status \<Rightarrow> dict option \<Rightarrow> string option \<Rightarrow> store \<Rightarrow> store" where
  "update_job_status se i new_status res err st =
     (let u = build_update_doc (update_times se i new_status) new_status res err
      in if update_raises se i new_status then st
         else st\<lparr> docs := update_one i u (docs st),
                  ops := ops st @ [OpUpdate i new_status] \<rparr>)"

section \<open>The robots.txt checker\<close>

text \<open>
  \<^verbatim>\<open>RobotsChecker\<close> keeps a dictionary from cache keys to pairs of a decision and the
  time it was stored; \<^verbatim>\<open>cache_ttl\<close> is 3600 seconds.
\<close>

type_synonym robots_cache = "string \<rightharpoonup> bool \<times> timestamp"

definition cache_ttl :: timestamp where
  "cache_ttl = 3600"

text \<open>
  The library calls of \<^verbatim>\<open>can_fetch\<close> are oracles: \<^verbatim>\<open>urlparse\<close> gives scheme and
  network location or raises (\<open>Inl\<close> with the message); the GET of the robots file with
  \<^verbatim>\<open>httpx\<close> raises or answers with a status code; the \<^verbatim>\<open>urlopen\<close> by which the
  parser fetches the same file once more raises, is answered with an HTTP error, or gives
  the text of the file; the rules of a robots file decide for an agent and a URL, or
  raise; \<^verbatim>\<open>time.time\<close> is read once for the cache test and once when the decision is
  stored. The fetches are taken to end: the GET has a timeout of ten seconds, the
  parser's \<^verbatim>\<open>urlopen\<close> has none, and a fetch that never ends is none of its outcomes here.
\<close>

datatype get_outcome = GetRaises string | GetStatus int

datatype urlopen_outcome = UrlopenRaises string | UrlopenHTTPError int | UrlopenBody string

record robots_env =
  urlparse :: "string \<Rightarrow> string + string \<times> string"
  client_get :: "string \<Rightarrow> get_outcome"
  rp_urlopen :: "string \<Rightarrow> urlopen_outcome"
  rules_allow :: "string \<Rightarrow> string \<Rightarrow> string \<Rightarrow> string + bool"
  time_at_check :: "string \<Rightarrow> timestamp"
  time_at_store :: "string \<Rightarrow> timestamp"

text \<open>
  The standard library's \<^verbatim>\<open>RobotFileParser\<close>, as far as the checker uses it. A new
  parser has both flags cleared and has not been checked. \<^verbatim>\<open>read\<close> handles an HTTP
  error itself: 401 and 403 set \<^verbatim>\<open>disallow_all\<close>, any other status from 400 up to 499
  sets \<^verbatim>\<open>allow_all\<close>, and any other error status changes nothing; every other exception
  of the fetch leaves \<^verbatim>\<open>read\<close>. A file that arrives is parsed, which marks the parser as
  checked. \<^verbatim>\<open>can_fetch\<close> answers from the flags first, denies while the parser has not
  been checked, and asks the rules otherwise.
\<close>

record robot_file_parser =
  disallow_all :: bool
  allow_all :: bool
  last_checked :: bool
  parsed_file :: string

definition rp_read :: "robots_env \<Rightarrow> string \<Rightarrow> string + robot_file_parser" where
  "rp_read re robots_url =
     (case rp_urlopen re robots_url of
        UrlopenRaises e \<Rightarrow> Inl e
      | UrlopenHTTPError code \<Rightarrow>
          Inr \<lparr> disallow_all = (code = 401 \<or> code = 403),
                allow_all = (code \<noteq> 401 \<and> code \<noteq> 403 \<and> 400 \<le> code \<and> code < 500),
                last_checked = False, parsed_file = [] \<rparr>
      | UrlopenBody raw \<Rightarrow>
          Inr \<lparr> disallow_all = False, allow_all = False, last_checked = True,
                parsed_file = raw \<rparr>)"

definition rp_can_fetch ::
  "robots_env \<Rightarrow> robot_file_parser \<Rightarrow> string \<Rightarrow> string \<Rightarrow> string + bool" where
  "rp_can_fetch re rp user_agent u =
     (if disallow_all rp then Inr False
      else if allow_all rp then Inr True
      else if \<not> last_checked rp then Inr False
      else rules_allow re (parsed_file rp) user_agent u)"

text \<open>
  The block under \<^verbatim>\<open>async with httpx.AsyncClient\<close>: its own handler turns every
  exception of the fetch and of the parser into \<^verbatim>\<open>True\<close>. Only a decision that the
  parser has returned is stored, under the key of the robots file and the agent.
\<close>

definition fetch_robots ::
  "robots_env \<Rightarrow> string \<Rightarrow> string \<Rightarrow> string \<Rightarrow> string \<Rightarrow> robots_cache \<Rightarrow> bool \<times> robots_cache" where
  "fetch_robots re robots_url cache_key u user_agent c =
     (case client_get re robots_url of
        GetRaises e \<Rightarrow> (True, c)
      | GetStatus code \<Rightarrow>
          if code = 200 then
            (case rp_read re robots_url of
               Inl e \<Rightarrow> (True, c)
             | Inr rp \<Rightarrow>
                 (case rp_can_fetch re rp user_agent u of
                    Inl e \<Rightarrow> (True, c)
                  | Inr cf \<Rightarrow> (cf, c(cache_key \<mapsto> (cf, time_at_store re u)))))
          else (True, c))"

text \<open>
  The statements of the outer \<^verbatim>\<open>try\<close>: \<open>Inl\<close> is an exception that leaves the block
  (here, one raised by \<^verbatim>\<open>urlparse\<close>). A cache entry younger than the TTL is returned as
  it is, for any URL that maps to the same key.
\<close>

definition can_fetch_try ::
  "robots_env \<Rightarrow> string \<Rightarrow> string \<Rightarrow> robots_cache \<Rightarrow> (string + bool) \<times> robots_cache" where
  "can_fetch_try re u user_agent c =
     (case urlparse re u of
        Inl e \<Rightarrow> (Inl e, c)
      | Inr (scheme, netloc) \<Rightarrow>
          let robots_url = scheme @ ''://'' @ netloc @ ''/robots.txt'';
              cache_key = robots_url @ '':'' @ user_agent
          in (case c cache_key of
                Some (cached_data, ts) \<Rightarrow>
                  if time_at_check re u - ts < cache_ttl then (Inr cached_data, c)
                  else (case fetch_robots re robots_url cache_key u user_agent c of
                          (b, c') \<Rightarrow> (Inr b, c'))
              | None \<Rightarrow>
                  (case fetch_robots re robots_url cache_key u user_agent c of
                     (b, c') \<Rightarrow> (Inr b, c'))))"

text \<open>
  \<^verbatim>\<open>can_fetch\<close>: the outer handler answers \<^verbatim>\<open>True\<close> for every exception of the block.
  The result is still written as a sum, as for any Python function that could raise.
\<close>

definition can_fetch ::
  "robots_env \<Rightarrow> string \<Rightarrow> string \<Rightarrow> robots_cache \<Rightarrow> (string + bool) \<times> robots_cache" where
  "can_fetch re u user_agent c =
     (case can_fetch_try re u user_agent c of
        (Inl e, c') \<Rightarrow> (Inr True, c')
      | (Inr b, c') \<Rightarrow> (Inr b, c'))"

section \<open>Scraping one page\<close>

record config =
  MAX_CONCURRENT_JOBS :: int
  MAX_PAGE_SIZE :: nat
  USER_AGENT :: string

text \<open>Decimal notation of an integer, for the messages built with f-strings.\<close>

fun str_nat :: "nat \<Rightarrow> string" where
  "str_nat n =
     (if n < 10 then [char_of (48 + n)] else str_nat (n div 10) @ [char_of (48 + n mod 10)])"

declare str_nat.simps [simp del]

definition str_int :: "int \<Rightarrow> string" where
  "str_int i = (if i < 0 then CHR ''-'' # str_nat (nat (- i)) else str_nat (nat i))"

text \<open>
  The browser is an oracle as well. Opening the page, computing the timeout from the
  options and \<^verbatim>\<open>page.goto\<close> together raise, give no response, or give a response with
  status, status text and content type; waiting for the network to be idle may raise; the
  content of the page, the extracted data, the screenshot path and the time stamp of the
  result are given.
\<close>

datatype goto_outcome = GotoRaises string | NoResponse | Response int string string

record page_env =
  page_goto :: "string \<Rightarrow> dict \<Rightarrow> goto_outcome"
  load_state_raises :: "string \<Rightarrow> string option"
  page_content :: "string \<Rightarrow> string"
  extract_content :: "string \<Rightarrow> string \<Rightarrow> dict"
  capture_screenshot :: "job_id \<Rightarrow> string option"
  scraped_at :: "job_id \<Rightarrow> string"

definition dict_get :: "dict \<Rightarrow> string \<Rightarrow> json \<Rightarrow> json" where
  "dict_get d k dflt = (case map_of d k of None \<Rightarrow> dflt | Some v \<Rightarrow> v)"

text \<open>
  The message of the \<^verbatim>\<open>AttributeError\<close> for a call of \<^verbatim>\<open>get\<close> on a value of the
  named type; \<open>CHR 0x27\<close> is the single quote.
\<close>

definition attribute_error :: "string \<Rightarrow> string" where
  "attribute_error ty =
     CHR 0x27 # ty @ CHR 0x27 # '' object has no attribute '' @ CHR 0x27 # ''get'' @ [CHR 0x27]"

text \<open>
  \<^verbatim>\<open>_scrape_page\<close>: \<open>Inl\<close> is the message of the exception that the function re-raises
  after logging it. The three \<^verbatim>\<open>raise\<close> statements of the source are the branches for
  a missing response, a status from 400 on and a page over the size limit. The last
  branches are the \<^verbatim>\<open>AttributeError\<close> of \<^verbatim>\<open>.get\<close> on statistics that are no
  dictionary.
\<close>

definition scrape_page ::
  "page_env \<Rightarrow> config \<Rightarrow> job_id \<Rightarrow> string \<Rightarrow> dict \<Rightarrow> string + dict" where
  "scrape_page pe cfg i u opts =
     (case page_goto pe u opts of
        GotoRaises e \<Rightarrow> Inl e
      | NoResponse \<Rightarrow> Inl ''Failed to load page - no response''
      | Response code status_text content_type \<Rightarrow>
          if code \<ge> 400 then Inl (''HTTP '' @ str_int code @ '': '' @ status_text)
          else
            (case load_state_raises pe u of
               Some e \<Rightarrow> Inl e
             | None \<Rightarrow>
                 let html_content = page_content pe u in
                 if length html_content > MAX_PAGE_SIZE cfg then
                   Inl (''Page size ('' @ str_nat (length html_content)
                          @ '' bytes) exceeds maximum allowed size'')
                 else
                   let extracted = extract_content pe html_content u;
                       screenshot_path = capture_screenshot pe i
                   in (case dict_get extracted ''statistics'' (JDict []) of
                         JDict stats \<Rightarrow>
                           Inr [(''url'', JStr u),
                                (''status_code'', JInt code),
                                (''content_type'', JStr content_type),
                                (''content_length'', JInt (int (length html_content))),
                                (''scraped_at'', JStr (scraped_at pe i)),
                                (''screenshot_path'',
                                   (case screenshot_path of None \<Rightarrow> JNull | Some p \<Rightarrow> JStr p)),
                                (''content'', JDict extracted),
                                (''performance'',
                                   JDict [(''load_time'', JNull),
                                          (''dom_elements'',
                                             dict_get stats ''dom_elements'' (JInt 0))])]
                       | JNull \<Rightarrow> Inl (attribute_error ''NoneType'')
                       | JInt n \<Rightarrow> Inl (attribute_error ''int'')
                       | JStr x \<Rightarrow> Inl (attribute_error ''str''))))"

section \<open>The worker: processing jobs\<close>

text \<open>
  The state of one \<^verbatim>\<open>ScrapingWorker\<close>: the set of jobs in flight, the counters, the
  cache of its robots checker, the run flag and the handles released at shutdown. The
  list of page navigations records the requests its browser has made.
\<close>

record worker =
  current_jobs :: "job_id set"
  jobs_processed :: nat
  jobs_succeeded :: nat
  jobs_failed :: nat
  last_activity :: timestamp
  robots_cache_of :: robots_cache
  navigations :: "string list"
  is_running :: bool
  context_open :: bool
  browser_open :: bool
  client_open :: bool

record env =
  store_env_of :: store_env
  robots_env_of :: robots_env
  page_env_of :: page_env
  finished_at :: "job_id \<Rightarrow> timestamp"

text \<open>
  The statements of the \<^verbatim>\<open>try\<close> block between the two status updates: the robots
  check, then (after the rate-limit delay) the scrape. \<open>Inl\<close> is the message of the
  exception that reaches the handler, \<open>Inr\<close> the result of the scrape.
\<close>

definition fetch_job :: "env \<Rightarrow> config \<Rightarrow> job \<Rightarrow> worker \<Rightarrow> (string + dict) \<times> worker" where
  "fetch_job e cfg j w =
     (case can_fetch (robots_env_of e) (url j) (USER_AGENT cfg) (robots_cache_of w) of
        (Inl msg, c) \<Rightarrow> (Inl msg, w\<lparr> robots_cache_of := c \<rparr>)
      | (Inr allowed, c) \<Rightarrow>
          if \<not> allowed then
            (Inl ''Robots.txt disallows fetching this URL'', w\<lparr> robots_cache_of := c \<rparr>)
          else
            (scrape_page (page_env_of e) cfg (jid j) (url j) (options j),
             w\<lparr> robots_cache_of := c, navigations := navigations w @ [url j] \<rparr>))"

text \<open>
  The body of \<^verbatim>\<open>_process_single_job\<close>. The handler catches every exception of the
  \<^verbatim>\<open>try\<close> block and writes the failed status at once; the \<^verbatim>\<open>finally\<close> block takes
  the job out of the set in flight. So the body returns normally on each path: \<open>Inr ()\<close>.
\<close>

definition process_single_job_body ::
  "env \<Rightarrow> config \<Rightarrow> job \<Rightarrow> worker \<times> store \<Rightarrow> (string + unit) \<times> worker \<times> store" where
  "process_single_job_body e cfg j ws =
     (let job_id = jid j;
          w = fst ws;
          st1 = update_job_status (store_env_of e) job_id IN_PROGRESS None None (snd ws);
          (outcome, w1) = fetch_job e cfg j w;
          (w2, st2) =
            (case outcome of
               Inr res \<Rightarrow>
                 (w1\<lparr> jobs_succeeded := jobs_succeeded w1 + 1 \<rparr>,
                  update_job_status (store_env_of e) job_id COMPLETED (Some res) None st1)
             | Inl msg \<Rightarrow>
                 (w1\<lparr> jobs_failed := jobs_failed w1 + 1 \<rparr>,
                  update_job_status (store_env_of e) job_id FAILED None (Some msg) st1));
          w3 = w2\<lparr> current_jobs := current_jobs w2 - {job_id},
                    jobs_processed := jobs_processed w2 + 1,
                    last_activity := finished_at e job_id \<rparr>
      in (Inr (), w3, st2))"

text \<open>
  The decorator \<^verbatim>\<open>@retry(stop=stop_after_attempt(3), wait=wait_exponential(...))\<close>: the
  call is repeated while it raises, and after the last permitted attempt the decorator
  raises its own error. The waiting times between attempts have no effect on the state.
\<close>

fun retry :: "nat \<Rightarrow> ('s \<Rightarrow> (string + 'a) \<times> 's) \<Rightarrow> 's \<Rightarrow> (string + 'a) \<times> 's" where
  "retry 0 f s = (Inl ''RetryError'', s)"
| "retry (Suc n) f s =
     (case f s of
        (Inr v, s') \<Rightarrow> (Inr v, s')
      | (Inl msg, s') \<Rightarrow> retry n f s')"

definition process_single_job ::
  "env \<Rightarrow> config \<Rightarrow> job \<Rightarrow> worker \<times> store \<Rightarrow> (string + unit) \<times> worker \<times> store" where
  "process_single_job e cfg j ws = retry 3 (process_single_job_body e cfg j) ws"

text \<open>
  The loop of \<^verbatim>\<open>_process_jobs\<close> over the jobs found: a job that is not in flight is
  added to the set and gets a task. No task runs before the loop is over, since the loop
  has no suspension point.
\<close>

fun claim_jobs :: "job list \<Rightarrow> job_id set \<Rightarrow> job list \<Rightarrow> job_id set \<times> job list" where
  "claim_jobs [] cur tasks = (cur, tasks)"
| "claim_jobs (j # js) cur tasks =
     (if jid j \<notin> cur then claim_jobs js (insert (jid j) cur) (tasks @ [j])
      else claim_jobs js cur tasks)"

text \<open>
  \<^verbatim>\<open>await asyncio.gather(*tasks, return_exceptions=True)\<close>: the call returns when every
  task has finished, and what a task raised is dropped. The event loop interleaves the
  tasks at their suspension points; here they run one after the other in the order of
  their creation, which fixes an order of their steps that the loop itself does not
  take. Each task writes the document of its own job only, and the statements made
  about a tick below do not depend on the order of the tasks.
\<close>

fun gather :: "env \<Rightarrow> config \<Rightarrow> job list \<Rightarrow> worker \<times> store \<Rightarrow> worker \<times> store" where
  "gather e cfg [] ws = ws"
| "gather e cfg (j # js) ws = gather e cfg js (snd (process_single_job e cfg j ws))"

text \<open>
  \<^verbatim>\<open>_process_jobs\<close>, one tick of the main loop, in its two phases. The first phase
  is everything up to the creation of the tasks: with the worker at its limit the tick
  returns before any query; an exception of the query is logged and ends the tick; an
  empty answer ends it as well. It yields the jobs that got a task.
\<close>

definition poll_and_claim ::
  "env \<Rightarrow> config \<Rightarrow> worker \<times> store \<Rightarrow> job list \<times> worker \<times> store" where
  "poll_and_claim e cfg ws =
     (let w = fst ws; st = snd ws in
      if int (card (current_jobs w)) \<ge> MAX_CONCURRENT_JOBS cfg then ([], w, st)
      else
        let jobs_to_process = nat (MAX_CONCURRENT_JOBS cfg - int (card (current_jobs w)));
            st1 = st\<lparr> ops := ops st @ [OpFind jobs_to_process] \<rparr>
        in if find_raises (store_env_of e) then ([], w, st1)
           else
             let jobs = find_pending jobs_to_process (docs st) in
             if jobs = [] then ([], w, st1)
             else
               let (cur, tasks) = claim_jobs jobs (current_jobs w) []
               in (tasks, w\<lparr> current_jobs := cur \<rparr>, st1))"

text \<open>The second phase awaits the tasks; without tasks the tick is over.\<close>

definition process_jobs :: "env \<Rightarrow> config \<Rightarrow> worker \<times> store \<Rightarrow> worker \<times> store" where
  "process_jobs e cfg ws =
     (case poll_and_claim e cfg ws of
        (tasks, w1, st1) \<Rightarrow>
          if tasks = [] then (w1, st1) else gather e cfg tasks (w1, st1))"

text \<open>
  The main loop of \<^verbatim>\<open>start\<close> calls \<^verbatim>\<open>_process_jobs\<close> and sleeps, tick after tick, each
  tick in the environment of its time. The list holds the ticks made before the loop is
  interrupted.
\<close>

fun ticks :: "env list \<Rightarrow> config \<Rightarrow> worker \<times> store \<Rightarrow> worker \<times> store" where
  "ticks [] cfg ws = ws"
| "ticks (e # es) cfg ws = ticks es cfg (process_jobs e cfg ws)"

section \<open>Shutdown\<close>



section \<open>Concrete inputs\<close>

text \<open>
  One pending job as \<^verbatim>\<open>create_scrape_job\<close> stores it, a store that holds it, and an
  environment in which everything works: the robots file of the host is fetched and
  allows every path but \<^verbatim>\<open>/private\<close>, the page loads, the driver accepts every update.
\<close>

definition ex_job :: job where
  "ex_job = \<lparr> jid = 1, url = ''https://a.test/x'', status = PENDING, createdAt = 0,
              updatedAt = 0, completedAt = None, result = None, error = None,
              options = [] \<rparr>"

definition ex_store :: store where
  "ex_store = \<lparr> docs = [ex_job], ops = [] \<rparr>"

definition ex_oid :: "string \<Rightarrow> job_id option" where
  "ex_oid s = (if s = ''000000000000000000000001'' then Some 1 else None)"

definition ex_api_env :: api_env where
  "ex_api_env = \<lparr> insert_raises = False, lookup_raises = False, write_raises = False,
                  read_back_raises = False \<rparr>"

definition ex_api_env_read_back :: api_env where
  "ex_api_env_read_back = ex_api_env\<lparr> read_back_raises := True \<rparr>"

definition ex_cfg :: config where
  "ex_cfg = \<lparr> MAX_CONCURRENT_JOBS = 3, MAX_PAGE_SIZE = 10485760, USER_AGENT = ''bot'' \<rparr>"

definition ex_store_env :: store_env where
  "ex_store_env = \<lparr> find_raises = False, update_raises = (\<lambda>i s. False),
                    update_times = (\<lambda>i s. (if s = IN_PROGRESS then (1, 1) else (2, 2))) \<rparr>"

definition ex_robots_env :: robots_env where
  "ex_robots_env =
     \<lparr> urlparse = (\<lambda>u. if prefix ''https://a.test/'' u then Inr (''https'', ''a.test'')
                         else Inl ''Invalid URL''),
       client_get = (\<lambda>r. GetStatus 200),
       rp_urlopen = (\<lambda>r. UrlopenBody ''Disallow: /private''),
       rules_allow = (\<lambda>f a u. Inr (u \<noteq> ''https://a.test/private'')),
       time_at_check = (\<lambda>u. 100),
       time_at_store = (\<lambda>u. 50) \<rparr>"

definition ex_page_env :: page_env where
  "ex_page_env =
     \<lparr> page_goto = (\<lambda>u opts. Response 200 ''OK'' ''text/html''),
       load_state_raises = (\<lambda>u. None),
       page_content = (\<lambda>u. ''<html></html>''),
       extract_content = (\<lambda>html u. [(''statistics'', JDict [(''dom_elements'', JInt 1)])]),
       capture_screenshot = (\<lambda>i. None),
       scraped_at = (\<lambda>i. ''2024-01-01T12:00:00+00:00'') \<rparr>"

definition ex_env :: env where
  "ex_env = \<lparr> store_env_of = ex_store_env, robots_env_of = ex_robots_env,
              page_env_of = ex_page_env, finished_at = (\<lambda>i. 3) \<rparr>"

text \<open>The same environment with a navigation that times out.\<close>

definition ex_env_timeout :: env where
  "ex_env_timeout =
     ex_env\<lparr> page_env_of :=
               ex_page_env\<lparr> page_goto := (\<lambda>u opts. GotoRaises ''Timeout 30000ms exceeded.'') \<rparr> \<rparr>"

text \<open>A worker that has just been initialised.\<close>

definition ex_worker :: worker where
  "ex_worker = \<lparr> current_jobs = {}, jobs_processed = 0, jobs_succeeded = 0, jobs_failed = 0,
                 last_activity = 0, robots_cache_of = Map.empty, navigations = [],
                 is_running = True, context_open = True, browser_open = True,
                 client_open = True \<rparr>"

text \<open>The result of scraping the example job in the example environment.\<close>

definition ex_result :: dict where
  "ex_result =
     [(''url'', JStr ''https://a.test/x''),
      (''status_code'', JInt 200),
      (''content_type'', JStr ''text/html''),
      (''content_length'', JInt 13),
      (''scraped_at'', JStr ''2024-01-01T12:00:00+00:00''),
      (''screenshot_path'', JNull),
      (''content'', JDict [(''statistics'', JDict [(''dom_elements'', JInt 1)])]),
      (''performance'', JDict [(''load_time'', JNull), (''dom_elements'', JInt 1)])]"

text \<open>
  The example job after a worker has completed it, a second worker whose clock is later,
  an environment whose driver refuses the failed update, one whose navigation raises an
  exception without message, and the request of the update endpoint for a status alone.
\<close>

definition ex_done_job :: job where
  "ex_done_job = ex_job\<lparr> status := COMPLETED, updatedAt := 2, completedAt := Some 2,
                         result := Some ex_result \<rparr>"

definition ex_done_store :: store where
  "ex_done_store = \<lparr> docs = [ex_done_job], ops = [] \<rparr>"

definition ex_store_env_late :: store_env where
  "ex_store_env_late = ex_store_env\<lparr> update_times := (\<lambda>i s. (5, 5)) \<rparr>"

definition ex_env_store_down :: env where
  "ex_env_store_down =
     ex_env_timeout\<lparr> store_env_of := ex_store_env\<lparr> update_raises := (\<lambda>i s. s = FAILED) \<rparr> \<rparr>"

definition ex_env_no_message :: env where
  "ex_env_no_message =
     ex_env\<lparr> page_env_of := ex_page_env\<lparr> page_goto := (\<lambda>u opts. GotoRaises []) \<rparr> \<rparr>"

definition ex_request :: "string \<Rightarrow> job_update_request" where
  "ex_request s = \<lparr> req_status = s, req_result = None, req_error = None \<rparr>"

definition ex_id :: string where
  "ex_id = ''000000000000000000000001''"

text \<open>
  The invariant that relates the payload of a job to its status: no result and no error
  before the job is final, exactly one of the two afterwards.
\<close>

definition result_error_invariant :: "job \<Rightarrow> bool" where
  "result_error_invariant j =
     (if status j \<in> {COMPLETED, FAILED} then (result j = None) \<noteq> (error j = None)
      else result j = None \<and> error j = None)"

text \<open>
  Three pending jobs created at different times, a worker limited to two jobs at a time,
  and a worker that already has two jobs in flight.
\<close>

definition ex_three_jobs :: store where
  "ex_three_jobs =
     \<lparr> docs = [ex_job\<lparr> jid := 1, createdAt := 3 \<rparr>,
               ex_job\<lparr> jid := 2, createdAt := 1 \<rparr>,
               ex_job\<lparr> jid := 3, createdAt := 2 \<rparr>],
       ops = [] \<rparr>"

definition ex_cfg_two :: config where
  "ex_cfg_two = ex_cfg\<lparr> MAX_CONCURRENT_JOBS := 2 \<rparr>"

definition ex_worker_full :: worker where
  "ex_worker_full = ex_worker\<lparr> current_jobs := {7, 8} \<rparr>"

text \<open>
  The parser after it has read the robots file of the example, a robots environment in
  which the parser's own fetch is answered with an HTTP error, and a shutdown during
  which the tasks of the two jobs in flight end in the second sleep.
\<close>

definition ex_parser :: robot_file_parser where
  "ex_parser = \<lparr> disallow_all = False, allow_all = False, last_checked = True,
                 parsed_file = ''Disallow: /private'' \<rparr>"

definition ex_robots_env_refused :: "int \<Rightarrow> robots_env" where
  "ex_robots_env_refused code = ex_robots_env\<lparr> rp_urlopen := (\<lambda>r. UrlopenHTTPError code) \<rparr>"



section \<open>Updates of the store\<close>

lemma jid_apply_set [simp]: "jid (apply_set u j) = jid j"
  by (simp add: apply_set_def)

lemma find_one_update_one_same:
  "find_one i (update_one i u js) = map_option (apply_set u) (find_one i js)"
  by (induction js) auto

lemma find_one_update_one_other:
  "i' \<noteq> i \<Longrightarrow> find_one i' (update_one i u js) = find_one i' js"
  by (induction js) auto

lemma find_one_update_job_status:
  "find_one i (docs (update_job_status se i ns r e st)) =
     (if update_raises se i ns then find_one i (docs st)
      else map_option (apply_set (build_update_doc (update_times se i ns) ns r e))
             (find_one i (docs st)))"
  by (simp add: update_job_status_def Let_def find_one_update_one_same)

section \<open>Claiming a job\<close>

text \<open>
  C1 (as the code has it). The update that moves a job to \<^verbatim>\<open>in_progress\<close> is one
  \<^verbatim>\<open>update_one\<close> whose filter is the id of the job alone. Whenever the driver accepts
  it, it is applied to the stored job whatever the status of that job is at that moment:
  the status becomes \<^verbatim>\<open>in_progress\<close> and \<^verbatim>\<open>updatedAt\<close> the time of the update, and
  nothing else of the document changes.
\<close>

theorem claim_update_unconditional:
  "find_one i (docs st) = Some j \<Longrightarrow> \<not> update_raises se i IN_PROGRESS \<Longrightarrow>
   find_one i (docs (update_job_status se i IN_PROGRESS None None st)) =
     Some (j\<lparr> status := IN_PROGRESS, updatedAt := fst (update_times se i IN_PROGRESS) \<rparr>)"
  by (simp add: find_one_update_job_status build_update_doc_def apply_set_def)

text \<open>The theorem at a job that is already completed: it is in progress again.\<close>

theorem claim_update_unconditional_witness:
  "find_one 1 (docs ex_done_store) = Some ex_done_job
   \<and> \<not> update_raises ex_store_env 1 IN_PROGRESS
   \<and> find_one 1 (docs (update_job_status ex_store_env 1 IN_PROGRESS None None ex_done_store)) =
       Some (ex_done_job\<lparr> status := IN_PROGRESS, updatedAt := 1 \<rparr>)"
proof -
  have a: "find_one 1 (docs ex_done_store) = Some ex_done_job"
    by (simp add: ex_done_store_def ex_done_job_def ex_job_def)
  have b: "\<not> update_raises ex_store_env 1 IN_PROGRESS"
    by (simp add: ex_store_env_def)
  have c: "fst (update_times ex_store_env 1 IN_PROGRESS) = 1"
    by (simp add: ex_store_env_def)
  show ?thesis using a b c claim_update_unconditional [OF a b] by simp
qed

text \<open>
  C1 (as stated) fails. Two workers have both found the example job pending. The first
  claims it at time 1; the claim of the second, at time 5, is applied as well: the stored
  record changes again and the store has executed both updates. Issued after the first
  worker has completed the job, the second claim even takes the job from
  \<^verbatim>\<open>completed\<close> back to \<^verbatim>\<open>in_progress\<close>.
\<close>

theorem claim_race_counterexample:
  "docs (update_job_status ex_store_env 1 IN_PROGRESS None None ex_store)
     = [ex_job\<lparr> status := IN_PROGRESS, updatedAt := 1 \<rparr>]
   \<and> docs (update_job_status ex_store_env_late 1 IN_PROGRESS None None
        (update_job_status ex_store_env 1 IN_PROGRESS None None ex_store))
     = [ex_job\<lparr> status := IN_PROGRESS, updatedAt := 5 \<rparr>]
   \<and> ex_job\<lparr> status := IN_PROGRESS, updatedAt := 5 \<rparr>
       \<noteq> ex_job\<lparr> status := IN_PROGRESS, updatedAt := 1 \<rparr>
   \<and> ops (update_job_status ex_store_env_late 1 IN_PROGRESS None None
        (update_job_status ex_store_env 1 IN_PROGRESS None None ex_store))
     = [OpUpdate 1 IN_PROGRESS, OpUpdate 1 IN_PROGRESS]
   \<and> docs (update_job_status ex_store_env_late 1 IN_PROGRESS None None ex_done_store)
     = [ex_done_job\<lparr> status := IN_PROGRESS, updatedAt := 5 \<rparr>]"
  by (simp add: update_job_status_def build_update_doc_def apply_set_def ex_store_def
        ex_store_env_def ex_store_env_late_def ex_job_def ex_done_store_def ex_done_job_def)

section \<open>Status transitions\<close>

lemma get_job_by_id_docs [simp]: "docs (snd (get_job_by_id raises oid s st)) = docs st"
  by (simp add: get_job_by_id_def Let_def split: option.splits)

lemma update_job_found:
  assumes "oid s = Some i" "find_one i (docs st) = Some j"
    and "validate_status (req_status req) = Some ns"
    and "\<not> lookup_raises ae" "\<not> write_raises ae" "\<not> read_back_raises ae"
  shows "update_job ae oid now s req st =
     (Inr (apply_set \<lparr> set_status = ns, set_updatedAt = now,
              set_completedAt = (if ns \<in> {COMPLETED, FAILED} then Some now else None),
              set_result = req_result req, set_error = req_error req \<rparr> j),
      \<lparr> docs = update_one i \<lparr> set_status = ns, set_updatedAt = now,
              set_completedAt = (if ns \<in> {COMPLETED, FAILED} then Some now else None),
              set_result = req_result req, set_error = req_error req \<rparr> (docs st),
        ops = ops st @ [OpFindOne i, OpUpdate i ns, OpFindOne i] \<rparr>)"
  using assms
  by (simp add: update_job_def get_job_by_id_def Let_def find_one_update_one_same)

lemma update_job_rejected:
  assumes "validate_status (req_status req) = None \<or> oid s = None
     \<or> (\<exists>i. oid s = Some i \<and> find_one i (docs st) = None)
     \<or> lookup_raises ae \<or> write_raises ae"
  shows "(\<exists>err. fst (update_job ae oid now s req st) = Inl err)
     \<and> docs (snd (update_job ae oid now s req st)) = docs st"
  using assms
  by (auto simp: update_job_def get_job_by_id_def Let_def
       split: option.splits sum.splits prod.splits if_splits)

lemma update_job_read_back:
  assumes "oid s = Some i" "find_one i (docs st) = Some j"
    and "validate_status (req_status req) = Some ns"
    and "\<not> lookup_raises ae" "\<not> write_raises ae" "read_back_raises ae"
  shows "fst (update_job ae oid now s req st) = Inl HTTP_500
     \<and> map_option status (find_one i (docs (snd (update_job ae oid now s req st)))) = Some ns"
  using assms
  by (simp add: update_job_def get_job_by_id_def Let_def find_one_update_one_same apply_set_def)

text \<open>
  C2 (as the code has it). Neither the endpoint nor the worker looks at the current status
  of a job. For a job that exists and a request whose status is one of the four constants,
  \<^verbatim>\<open>update_job\<close> succeeds, when the driver does not fail, and the stored status is the
  requested one; the worker's \<^verbatim>\<open>_update_job_status\<close> writes any status it is called
  with, whenever the driver accepts the update. The endpoint rejects a request with the
  documents left as they were when the status string is none of the four, when the id is
  malformed or unknown, and when the driver fails at the lookup or at the write. When
  the driver fails only at the read after the write, the endpoint answers 500 and the
  requested status is stored all the same.
\<close>

theorem update_any_transition:
  "(oid s = Some i \<and> find_one i (docs st) = Some j
      \<and> validate_status (req_status req) = Some ns
      \<and> \<not> lookup_raises ae \<and> \<not> write_raises ae \<and> \<not> read_back_raises ae
      \<longrightarrow> (\<exists>j'. fst (update_job ae oid now s req st) = Inr j' \<and> status j' = ns
                \<and> find_one i (docs (snd (update_job ae oid now s req st))) = Some j'))
   \<and> (find_one i (docs st) = Some j \<and> \<not> update_raises se i ns
      \<longrightarrow> map_option status (find_one i (docs (update_job_status se i ns r e st))) = Some ns)
   \<and> (validate_status (req_status req) = None \<or> oid s = None
        \<or> (\<exists>i'. oid s = Some i' \<and> find_one i' (docs st) = None)
        \<or> lookup_raises ae \<or> write_raises ae
      \<longrightarrow> (\<exists>err. fst (update_job ae oid now s req st) = Inl err)
          \<and> docs (snd (update_job ae oid now s req st)) = docs st)
   \<and> (oid s = Some i \<and> find_one i (docs st) = Some j
      \<and> validate_status (req_status req) = Some ns
      \<and> \<not> lookup_raises ae \<and> \<not> write_raises ae \<and> read_back_raises ae
      \<longrightarrow> fst (update_job ae oid now s req st) = Inl HTTP_500
          \<and> map_option status (find_one i (docs (snd (update_job ae oid now s req st))))
              = Some ns)"
proof -
  have 1: "\<exists>j'. fst (update_job ae oid now s req st) = Inr j' \<and> status j' = ns
                \<and> find_one i (docs (snd (update_job ae oid now s req st))) = Some j'"
    if h: "oid s = Some i" "find_one i (docs st) = Some j"
      "validate_status (req_status req) = Some ns"
      "\<not> lookup_raises ae" "\<not> write_raises ae" "\<not> read_back_raises ae"
    by (simp add: update_job_found [where oid=oid and s=s, OF h] find_one_update_one_same h
          apply_set_def)
  have 2: "map_option status (find_one i (docs (update_job_status se i ns r e st))) = Some ns"
    if "find_one i (docs st) = Some j" "\<not> update_raises se i ns"
    using that by (simp add: find_one_update_job_status build_update_doc_def apply_set_def)
  have 3: "(\<exists>err. fst (update_job ae oid now s req st) = Inl err)
          \<and> docs (snd (update_job ae oid now s req st)) = docs st"
    if "validate_status (req_status req) = None \<or> oid s = None
        \<or> (\<exists>i'. oid s = Some i' \<and> find_one i' (docs st) = None)
        \<or> lookup_raises ae \<or> write_raises ae"
    using that by (rule update_job_rejected)
  have 4: "fst (update_job ae oid now s req st) = Inl HTTP_500
          \<and> map_option status (find_one i (docs (snd (update_job ae oid now s req st))))
              = Some ns"
    if h: "oid s = Some i" "find_one i (docs st) = Some j"
      "validate_status (req_status req) = Some ns"
      "\<not> lookup_raises ae" "\<not> write_raises ae" "read_back_raises ae"
    using update_job_read_back [where oid=oid and s=s, OF h] .
  show ?thesis using 1 2 3 4 by blast
qed

lemma ex_validate: "validate_status ''pending'' = Some PENDING" "validate_status ''completed'' = Some COMPLETED"
  "validate_status ''done'' = None"
  by (simp_all add: validate_status_def)

lemma ex_api_env_ok:
  "\<not> lookup_raises ex_api_env" "\<not> write_raises ex_api_env" "\<not> read_back_raises ex_api_env"
  by (simp_all add: ex_api_env_def)

text \<open>
  C2 (as stated) fails: there is no invalid transition. The endpoint takes the completed
  example job back to \<^verbatim>\<open>pending\<close> and answers with the changed job; the worker's
  update takes it back to \<^verbatim>\<open>in_progress\<close>.
\<close>

theorem update_any_transition_counterexample:
  "update_job ex_api_env ex_oid 9 ex_id (ex_request ''pending'') ex_done_store =
     (Inr (ex_done_job\<lparr> status := PENDING, updatedAt := 9 \<rparr>),
      \<lparr> docs = [ex_done_job\<lparr> status := PENDING, updatedAt := 9 \<rparr>],
        ops = [OpFindOne 1, OpUpdate 1 PENDING, OpFindOne 1] \<rparr>)
   \<and> ex_done_job\<lparr> status := PENDING, updatedAt := 9 \<rparr> \<noteq> ex_done_job
   \<and> status ex_done_job = COMPLETED
   \<and> docs (update_job_status ex_store_env 1 IN_PROGRESS None None ex_done_store) =
       [ex_done_job\<lparr> status := IN_PROGRESS, updatedAt := 1 \<rparr>]"
proof -
  have a: "ex_oid ex_id = Some 1" by (simp add: ex_oid_def ex_id_def)
  have b: "find_one 1 (docs ex_done_store) = Some ex_done_job"
    by (simp add: ex_done_store_def ex_done_job_def ex_job_def)
  have c: "validate_status (req_status (ex_request ''pending'')) = Some PENDING"
    by (simp add: ex_request_def ex_validate)
  have 1: "update_job ex_api_env ex_oid 9 ex_id (ex_request ''pending'') ex_done_store =
     (Inr (ex_done_job\<lparr> status := PENDING, updatedAt := 9 \<rparr>),
      \<lparr> docs = [ex_done_job\<lparr> status := PENDING, updatedAt := 9 \<rparr>],
        ops = [OpFindOne 1, OpUpdate 1 PENDING, OpFindOne 1] \<rparr>)"
    by (simp add: update_job_found [where oid=ex_oid and s=ex_id, OF a b c ex_api_env_ok])
       (simp add: apply_set_def ex_request_def ex_done_store_def ex_done_job_def ex_job_def)
  have 2: "ex_done_job\<lparr> status := PENDING, updatedAt := 9 \<rparr> \<noteq> ex_done_job"
    by (simp add: ex_done_job_def ex_job_def)
  have 3: "status ex_done_job = COMPLETED" by (simp add: ex_done_job_def)
  have 4: "docs (update_job_status ex_store_env 1 IN_PROGRESS None None ex_done_store) =
       [ex_done_job\<lparr> status := IN_PROGRESS, updatedAt := 1 \<rparr>]"
    by (simp add: update_job_status_def build_update_doc_def apply_set_def ex_store_env_def
          ex_done_store_def ex_done_job_def ex_job_def)
  show ?thesis using 1 2 3 4 by blast
qed

text \<open>
  The theorem at the completed example job: for the request of \<^verbatim>\<open>pending\<close> with a
  driver that works, for the same request with a driver that fails at the read after the
  write, and for a request with the unknown status \<^verbatim>\<open>done\<close>.
\<close>

theorem update_any_transition_witness:
  "ex_oid ex_id = Some 1 \<and> find_one 1 (docs ex_done_store) = Some ex_done_job
   \<and> validate_status (req_status (ex_request ''pending'')) = Some PENDING
   \<and> \<not> lookup_raises ex_api_env \<and> \<not> write_raises ex_api_env
   \<and> \<not> read_back_raises ex_api_env
   \<and> \<not> lookup_raises ex_api_env_read_back \<and> \<not> write_raises ex_api_env_read_back
   \<and> read_back_raises ex_api_env_read_back
   \<and> \<not> update_raises ex_store_env 1 PENDING
   \<and> validate_status (req_status (ex_request ''done'')) = None
   \<and> (\<exists>j'. fst (update_job ex_api_env ex_oid 9 ex_id (ex_request ''pending'') ex_done_store) = Inr j'
          \<and> status j' = PENDING
          \<and> find_one 1 (docs (snd (update_job ex_api_env ex_oid 9 ex_id (ex_request ''pending'') ex_done_store))) = Some j')
   \<and> map_option status (find_one 1 (docs (update_job_status ex_store_env 1 PENDING None None ex_done_store))) = Some PENDING
   \<and> (\<exists>err. fst (update_job ex_api_env ex_oid 9 ex_id (ex_request ''done'') ex_done_store) = Inl err)
   \<and> docs (snd (update_job ex_api_env ex_oid 9 ex_id (ex_request ''done'') ex_done_store)) = docs ex_done_store
   \<and> fst (update_job ex_api_env_read_back ex_oid 9 ex_id (ex_request ''pending'') ex_done_store) = Inl HTTP_500
   \<and> map_option status (find_one 1 (docs (snd (update_job ex_api_env_read_back ex_oid 9 ex_id (ex_request ''pending'') ex_done_store)))) = Some PENDING"
proof -
  have a: "ex_oid ex_id = Some 1" by (simp add: ex_oid_def ex_id_def)
  have b: "find_one 1 (docs ex_done_store) = Some ex_done_job"
    by (simp add: ex_done_store_def ex_done_job_def ex_job_def)
  have c: "validate_status (req_status (ex_request ''pending'')) = Some PENDING"
    by (simp add: ex_request_def ex_validate)
  have d: "\<not> update_raises ex_store_env 1 PENDING" by (simp add: ex_store_env_def)
  have e: "validate_status (req_status (ex_request ''done'')) = None"
    by (simp add: ex_request_def ex_validate)
  have f: "\<not> lookup_raises ex_api_env_read_back" "\<not> write_raises ex_api_env_read_back"
    "read_back_raises ex_api_env_read_back"
    by (simp_all add: ex_api_env_read_back_def ex_api_env_def)
  from update_any_transition [of ex_oid ex_id 1 ex_done_store ex_done_job "ex_request ''pending''"
      PENDING ex_api_env 9 ex_store_env None None] a b c d ex_api_env_ok
  have 1: "(\<exists>j'. fst (update_job ex_api_env ex_oid 9 ex_id (ex_request ''pending'') ex_done_store) = Inr j'
          \<and> status j' = PENDING
          \<and> find_one 1 (docs (snd (update_job ex_api_env ex_oid 9 ex_id (ex_request ''pending'') ex_done_store))) = Some j')"
    and 2: "map_option status (find_one 1 (docs (update_job_status ex_store_env 1 PENDING None None ex_done_store))) = Some PENDING"
    by blast+
  from update_any_transition [of ex_oid ex_id 1 ex_done_store ex_done_job "ex_request ''done''"
      PENDING ex_api_env 9 ex_store_env None None] e
  have 3: "(\<exists>err. fst (update_job ex_api_env ex_oid 9 ex_id (ex_request ''done'') ex_done_store) = Inl err)"
    and 4: "docs (snd (update_job ex_api_env ex_oid 9 ex_id (ex_request ''done'') ex_done_store)) = docs ex_done_store"
    by blast+
  from update_any_transition [of ex_oid ex_id 1 ex_done_store ex_done_job "ex_request ''pending''"
      PENDING ex_api_env_read_back 9 ex_store_env None None] a b c f
  have 5: "fst (update_job ex_api_env_read_back ex_oid 9 ex_id (ex_request ''pending'') ex_done_store) = Inl HTTP_500"
    and 6: "map_option status (find_one 1 (docs (snd (update_job ex_api_env_read_back ex_oid 9 ex_id (ex_request ''pending'') ex_done_store)))) = Some PENDING"
    by blast+
  show ?thesis using a b c d e f ex_api_env_ok 1 2 3 4 5 6 by blast
qed

section \<open>Processing one job\<close>

lemma scrape_page_nonempty: "scrape_page pe cfg i u opts = Inr r \<Longrightarrow> r \<noteq> []"
  by (auto simp: scrape_page_def Let_def split: goto_outcome.splits if_splits option.splits json.splits)

lemma fetch_job_nonempty: "fst (fetch_job e cfg j w) = Inr r \<Longrightarrow> r \<noteq> []"
  by (auto simp: fetch_job_def dest: scrape_page_nonempty split: prod.splits sum.splits if_splits)

lemma fetch_job_fields:
  "fetch_job e cfg j w = (oc, w1) \<Longrightarrow>
     current_jobs w1 = current_jobs w \<and> jobs_processed w1 = jobs_processed w"
  by (auto simp: fetch_job_def split: prod.splits sum.splits if_splits)

text \<open>
  The body of \<^verbatim>\<open>_process_single_job\<close> never raises, so the decorator makes exactly
  one call of it.
\<close>

lemma retry_body: "process_single_job e cfg j ws = process_single_job_body e cfg j ws"
  by (simp add: process_single_job_def process_single_job_body_def numeral_3_eq_3 Let_def
      split: prod.splits sum.splits)

lemma body_store:
  "snd (snd (process_single_job_body e cfg j (w, st))) =
     (case fst (fetch_job e cfg j w) of
        Inr res \<Rightarrow> update_job_status (store_env_of e) (jid j) COMPLETED (Some res) None
                     (update_job_status (store_env_of e) (jid j) IN_PROGRESS None None st)
      | Inl msg \<Rightarrow> update_job_status (store_env_of e) (jid j) FAILED None (Some msg)
                     (update_job_status (store_env_of e) (jid j) IN_PROGRESS None None st))"
  by (simp add: process_single_job_body_def Let_def split: prod.splits sum.splits)

lemma body_current_jobs:
  "current_jobs (fst (snd (process_single_job_body e cfg j ws))) = current_jobs (fst ws) - {jid j}"
proof -
  obtain oc w1 where f: "fetch_job e cfg j (fst ws) = (oc, w1)" by (cases "fetch_job e cfg j (fst ws)")
  from fetch_job_fields [OF f] f show ?thesis
    by (cases oc) (simp_all add: process_single_job_body_def Let_def)
qed

lemma body_jobs_processed:
  "jobs_processed (fst (snd (process_single_job_body e cfg j ws))) = jobs_processed (fst ws) + 1"
proof -
  obtain oc w1 where f: "fetch_job e cfg j (fst ws) = (oc, w1)" by (cases "fetch_job e cfg j (fst ws)")
  from fetch_job_fields [OF f] f show ?thesis
    by (cases oc) (simp_all add: process_single_job_body_def Let_def)
qed

lemma find_one_append:
  "find_one i (xs @ ys) = (case find_one i xs of None \<Rightarrow> find_one i ys | Some j \<Rightarrow> Some j)"
  by (induction xs) auto

lemma ex_fetch_ok:
  "robots_cache_of w = Map.empty \<Longrightarrow> fst (fetch_job ex_env ex_cfg ex_job w) = Inr ex_result"
  by (simp add: fetch_job_def can_fetch_def can_fetch_try_def fetch_robots_def rp_read_def rp_can_fetch_def scrape_page_def
        dict_get_def ex_env_def ex_robots_env_def ex_page_env_def ex_cfg_def ex_job_def
        ex_worker_def ex_result_def)

lemma ex_result_nonempty: "ex_result \<noteq> []"
  by (simp add: ex_result_def)

lemma ex_fetch_timeout:
  "fst (fetch_job ex_env_timeout ex_cfg ex_job ex_worker) = Inl ''Timeout 30000ms exceeded.''"
  by (simp add: fetch_job_def can_fetch_def can_fetch_try_def fetch_robots_def rp_read_def rp_can_fetch_def scrape_page_def
        ex_env_timeout_def ex_env_def ex_robots_env_def ex_page_env_def ex_cfg_def ex_job_def
        ex_worker_def)

lemma ex_fetch_no_message:
  "fst (fetch_job ex_env_no_message ex_cfg ex_job ex_worker) = Inl []"
  by (simp add: fetch_job_def can_fetch_def can_fetch_try_def fetch_robots_def rp_read_def rp_can_fetch_def scrape_page_def
        ex_env_no_message_def ex_env_def ex_robots_env_def ex_page_env_def ex_cfg_def ex_job_def
        ex_worker_def)

lemma ex_find_job: "find_one (jid ex_job) (docs ex_store) = Some ex_job"
  by (simp add: ex_store_def ex_job_def)

lemma ex_run_timeout:
  "snd (snd (process_single_job ex_env_timeout ex_cfg ex_job (ex_worker, ex_store))) =
     \<lparr> docs = [ex_job\<lparr> status := FAILED, updatedAt := 2, completedAt := Some 2,
                        error := Some ''Timeout 30000ms exceeded.'' \<rparr>],
       ops = [OpUpdate 1 IN_PROGRESS, OpUpdate 1 FAILED] \<rparr>"
  by (simp add: retry_body body_store ex_fetch_timeout)
     (simp add: update_job_status_def build_update_doc_def apply_set_def ex_env_timeout_def
        ex_env_def ex_store_env_def ex_store_def ex_job_def)

lemma ex_run_no_message:
  "snd (snd (process_single_job ex_env_no_message ex_cfg ex_job (ex_worker, ex_store))) =
     \<lparr> docs = [ex_job\<lparr> status := FAILED, updatedAt := 2, completedAt := Some 2 \<rparr>],
       ops = [OpUpdate 1 IN_PROGRESS, OpUpdate 1 FAILED] \<rparr>"
  by (simp add: retry_body body_store ex_fetch_no_message)
     (simp add: update_job_status_def build_update_doc_def apply_set_def ex_env_no_message_def
        ex_env_def ex_store_env_def ex_store_def ex_job_def)

lemma ex_fetch_store_down:
  "fst (fetch_job ex_env_store_down ex_cfg ex_job ex_worker) = Inl ''Timeout 30000ms exceeded.''"
  by (simp add: fetch_job_def can_fetch_def can_fetch_try_def fetch_robots_def rp_read_def rp_can_fetch_def scrape_page_def
        ex_env_store_down_def ex_env_timeout_def ex_env_def ex_robots_env_def ex_page_env_def
        ex_cfg_def ex_job_def ex_worker_def)

lemma ex_run_store_down:
  "snd (snd (process_single_job ex_env_store_down ex_cfg ex_job (ex_worker, ex_store))) =
     \<lparr> docs = [ex_job\<lparr> status := IN_PROGRESS, updatedAt := 1 \<rparr>],
       ops = [OpUpdate 1 IN_PROGRESS] \<rparr>"
  by (simp add: retry_body body_store ex_fetch_store_down)
     (simp add: update_job_status_def build_update_doc_def apply_set_def ex_env_store_down_def
        ex_env_timeout_def ex_env_def ex_store_env_def ex_store_def ex_job_def)

section \<open>Result and error of a job\<close>

lemma update_refused: "update_raises se i ns \<Longrightarrow> update_job_status se i ns r e st = st"
  by (simp add: update_job_status_def Let_def)

lemma completed_update:
  assumes "find_one i (docs st) = Some j0" "res \<noteq> []" "\<not> update_raises se i COMPLETED"
  shows "\<exists>j1. find_one i (docs (update_job_status se i COMPLETED (Some res) None st)) = Some j1
     \<and> status j1 = COMPLETED \<and> result j1 = Some res \<and> error j1 = error j0
     \<and> result_error_invariant j1 = (error j0 = None)"
  using assms
  by (auto simp: find_one_update_job_status build_update_doc_def apply_set_def
        result_error_invariant_def)

lemma failed_update:
  assumes "find_one i (docs st) = Some j0" "msg \<noteq> []" "\<not> update_raises se i FAILED"
  shows "\<exists>j1. find_one i (docs (update_job_status se i FAILED None (Some msg) st)) = Some j1
     \<and> status j1 = FAILED \<and> error j1 = Some msg \<and> result j1 = result j0
     \<and> result_error_invariant j1 = (result j0 = None)"
  using assms
  by (auto simp: find_one_update_job_status build_update_doc_def apply_set_def
        result_error_invariant_def)

lemma in_progress_update:
  assumes "find_one i (docs st) = Some j0" "status j0 \<in> {PENDING, IN_PROGRESS}"
    "result j0 = None" "error j0 = None"
  shows "\<exists>j1. find_one i (docs (update_job_status se i IN_PROGRESS None None st)) = Some j1
     \<and> status j1 \<in> {PENDING, IN_PROGRESS} \<and> result j1 = None \<and> error j1 = None
     \<and> result_error_invariant j1"
  using assms
  by (auto simp: find_one_update_job_status build_update_doc_def apply_set_def
        result_error_invariant_def)

lemma created_job:
  "create_scrape_job ae new_id now u opts st = (Inr j', st') \<Longrightarrow>
     status j' = PENDING \<and> result j' = None \<and> error j' = None \<and> result_error_invariant j'"
  by (auto simp: create_scrape_job_def Let_def find_one_append result_error_invariant_def
        split: if_splits option.splits)

text \<open>
  C3 (as the code has it). A created job is pending and has neither result nor error.
  While it processes a job, a worker makes two updates, in this order: the one to
  \<^verbatim>\<open>in_progress\<close>, and then either \<^verbatim>\<open>completed\<close> with the result of the scrape, which
  is never empty, or \<^verbatim>\<open>failed\<close> with the message of the exception. Each update acts on
  the stored job as it is at that moment, when the driver accepts it. The update to
  \<^verbatim>\<open>in_progress\<close> leaves a job that is not final and has neither result nor error in
  that state. The update to \<^verbatim>\<open>completed\<close> sets the result and leaves the error as it
  was; the update to \<^verbatim>\<open>failed\<close>, for a message that is not empty, sets the error and
  leaves the result as it was. So the invariant holds after the final update exactly when
  the other of the two fields was empty in the stored job at that moment. An update that
  the driver refuses changes nothing.
\<close>

theorem payload_invariant_of_worker:
  "(\<forall>j' st'. create_scrape_job ae new_id now u opts st0 = (Inr j', st')
       \<longrightarrow> status j' = PENDING \<and> result j' = None \<and> error j' = None
           \<and> result_error_invariant j')
   \<and> (snd (snd (process_single_job e cfg j (w, st))) =
        (case fst (fetch_job e cfg j w) of
           Inr res \<Rightarrow> update_job_status (store_env_of e) (jid j) COMPLETED (Some res) None
                        (update_job_status (store_env_of e) (jid j) IN_PROGRESS None None st)
         | Inl msg \<Rightarrow> update_job_status (store_env_of e) (jid j) FAILED None (Some msg)
                        (update_job_status (store_env_of e) (jid j) IN_PROGRESS None None st)))
   \<and> (\<forall>res. fst (fetch_job e cfg j w) = Inr res \<longrightarrow> res \<noteq> [])
   \<and> (find_one i (docs st) = Some j0 \<and> status j0 \<in> {PENDING, IN_PROGRESS}
         \<and> result j0 = None \<and> error j0 = None
       \<longrightarrow> (\<exists>j1. find_one i (docs (update_job_status se i IN_PROGRESS None None st)) = Some j1
                 \<and> status j1 \<in> {PENDING, IN_PROGRESS} \<and> result j1 = None \<and> error j1 = None
                 \<and> result_error_invariant j1))
   \<and> (find_one i (docs st) = Some j0 \<and> res \<noteq> [] \<and> \<not> update_raises se i COMPLETED
       \<longrightarrow> (\<exists>j1. find_one i (docs (update_job_status se i COMPLETED (Some res) None st))
                   = Some j1
                 \<and> status j1 = COMPLETED \<and> result j1 = Some res \<and> error j1 = error j0
                 \<and> result_error_invariant j1 = (error j0 = None)))
   \<and> (find_one i (docs st) = Some j0 \<and> msg \<noteq> [] \<and> \<not> update_raises se i FAILED
       \<longrightarrow> (\<exists>j1. find_one i (docs (update_job_status se i FAILED None (Some msg) st))
                   = Some j1
                 \<and> status j1 = FAILED \<and> error j1 = Some msg \<and> result j1 = result j0
                 \<and> result_error_invariant j1 = (result j0 = None)))
   \<and> (update_raises se i ns \<longrightarrow> update_job_status se i ns r e' st = st)"
proof -
  have 1: "\<forall>j' st'. create_scrape_job ae new_id now u opts st0 = (Inr j', st')
       \<longrightarrow> status j' = PENDING \<and> result j' = None \<and> error j' = None
           \<and> result_error_invariant j'"
    using created_job by blast
  have 2: "snd (snd (process_single_job e cfg j (w, st))) =
        (case fst (fetch_job e cfg j w) of
           Inr res \<Rightarrow> update_job_status (store_env_of e) (jid j) COMPLETED (Some res) None
                        (update_job_status (store_env_of e) (jid j) IN_PROGRESS None None st)
         | Inl msg \<Rightarrow> update_job_status (store_env_of e) (jid j) FAILED None (Some msg)
                        (update_job_status (store_env_of e) (jid j) IN_PROGRESS None None st))"
    by (simp add: retry_body body_store)
  have 3: "\<forall>res. fst (fetch_job e cfg j w) = Inr res \<longrightarrow> res \<noteq> []"
    using fetch_job_nonempty by blast
  have 4: "\<exists>j1. find_one i (docs (update_job_status se i IN_PROGRESS None None st)) = Some j1
                 \<and> status j1 \<in> {PENDING, IN_PROGRESS} \<and> result j1 = None \<and> error j1 = None
                 \<and> result_error_invariant j1"
    if h: "find_one i (docs st) = Some j0" "status j0 \<in> {PENDING, IN_PROGRESS}"
      "result j0 = None" "error j0 = None"
    using in_progress_update [OF h] .
  have 5: "\<exists>j1. find_one i (docs (update_job_status se i COMPLETED (Some res) None st))
                   = Some j1
                 \<and> status j1 = COMPLETED \<and> result j1 = Some res \<and> error j1 = error j0
                 \<and> result_error_invariant j1 = (error j0 = None)"
    if h: "find_one i (docs st) = Some j0" "res \<noteq> []" "\<not> update_raises se i COMPLETED"
    using completed_update [OF h] .
  have 6: "\<exists>j1. find_one i (docs (update_job_status se i FAILED None (Some msg) st))
                   = Some j1
                 \<and> status j1 = FAILED \<and> error j1 = Some msg \<and> result j1 = result j0
                 \<and> result_error_invariant j1 = (result j0 = None)"
    if h: "find_one i (docs st) = Some j0" "msg \<noteq> []" "\<not> update_raises se i FAILED"
    using failed_update [OF h] .
  have 7: "update_job_status se i ns r e' st = st" if "update_raises se i ns"
    using that by (rule update_refused)
  show ?thesis using 1 2 3 4 5 6 7 by blast
qed

lemma ex_run_second_worker:
  "docs (snd (snd (process_single_job ex_env_timeout ex_cfg ex_job (ex_worker, ex_done_store)))) =
     [ex_done_job\<lparr> status := FAILED, error := Some ''Timeout 30000ms exceeded.'' \<rparr>]"
  by (simp add: retry_body body_store ex_fetch_timeout)
     (simp add: update_job_status_def build_update_doc_def apply_set_def ex_env_timeout_def
        ex_env_def ex_store_env_def ex_done_store_def ex_done_job_def ex_job_def)

lemma ex_run_first_worker:
  "docs (snd (snd (process_single_job ex_env ex_cfg ex_job (ex_worker, ex_store)))) =
     docs ex_done_store"
  by (simp add: retry_body body_store ex_fetch_ok ex_worker_def)
     (simp add: update_job_status_def build_update_doc_def apply_set_def ex_env_def
        ex_store_env_def ex_store_def ex_done_store_def ex_job_def ex_done_job_def
        ex_result_nonempty)

text \<open>
  C3 (as stated) fails. The update endpoint completes the pending example job with a
  request that carries a status only: the job is completed with neither result nor error.
  A job whose processing raises an exception with an empty message is failed by the
  worker without an error. And when a second worker, which has found the job pending as
  well, processes it after the first has completed it, and its navigation times out, the
  job ends failed with both a result and an error.
\<close>

theorem payload_invariant_counterexample:
  "result_error_invariant ex_job
   \<and> fst (update_job ex_api_env ex_oid 9 ex_id (ex_request ''completed'') ex_store) =
       Inr (ex_job\<lparr> status := COMPLETED, updatedAt := 9, completedAt := Some 9 \<rparr>)
   \<and> \<not> result_error_invariant (ex_job\<lparr> status := COMPLETED, updatedAt := 9, completedAt := Some 9 \<rparr>)
   \<and> docs (snd (snd (process_single_job ex_env_no_message ex_cfg ex_job (ex_worker, ex_store)))) =
       [ex_job\<lparr> status := FAILED, updatedAt := 2, completedAt := Some 2 \<rparr>]
   \<and> \<not> result_error_invariant (ex_job\<lparr> status := FAILED, updatedAt := 2, completedAt := Some 2 \<rparr>)
   \<and> docs (snd (snd (process_single_job ex_env ex_cfg ex_job (ex_worker, ex_store)))) =
       docs ex_done_store
   \<and> docs (snd (snd (process_single_job ex_env_timeout ex_cfg ex_job (ex_worker, ex_done_store)))) =
       [ex_done_job\<lparr> status := FAILED, error := Some ''Timeout 30000ms exceeded.'' \<rparr>]
   \<and> \<not> result_error_invariant
         (ex_done_job\<lparr> status := FAILED, error := Some ''Timeout 30000ms exceeded.'' \<rparr>)"
proof -
  have a: "ex_oid ex_id = Some 1" by (simp add: ex_oid_def ex_id_def)
  have b: "find_one 1 (docs ex_store) = Some ex_job" by (simp add: ex_store_def ex_job_def)
  have c: "validate_status (req_status (ex_request ''completed'')) = Some COMPLETED"
    by (simp add: ex_request_def ex_validate)
  have 1: "result_error_invariant ex_job" by (simp add: result_error_invariant_def ex_job_def)
  have 2: "fst (update_job ex_api_env ex_oid 9 ex_id (ex_request ''completed'') ex_store) =
       Inr (ex_job\<lparr> status := COMPLETED, updatedAt := 9, completedAt := Some 9 \<rparr>)"
    by (simp add: update_job_found [where oid=ex_oid and s=ex_id, OF a b c ex_api_env_ok])
       (simp add: apply_set_def ex_request_def ex_job_def)
  have 3: "\<not> result_error_invariant (ex_job\<lparr> status := COMPLETED, updatedAt := 9, completedAt := Some 9 \<rparr>)"
    by (simp add: result_error_invariant_def ex_job_def)
  have 4: "docs (snd (snd (process_single_job ex_env_no_message ex_cfg ex_job (ex_worker, ex_store)))) =
       [ex_job\<lparr> status := FAILED, updatedAt := 2, completedAt := Some 2 \<rparr>]"
    by (simp add: ex_run_no_message)
  have 5: "\<not> result_error_invariant (ex_job\<lparr> status := FAILED, updatedAt := 2, completedAt := Some 2 \<rparr>)"
    by (simp add: result_error_invariant_def ex_job_def)
  have 6: "\<not> result_error_invariant
         (ex_done_job\<lparr> status := FAILED, error := Some ''Timeout 30000ms exceeded.'' \<rparr>)"
    by (simp add: result_error_invariant_def ex_done_job_def ex_job_def)
  show ?thesis using 1 2 3 4 5 6 ex_run_first_worker ex_run_second_worker by blast
qed

text \<open>
  The theorem at the example job: its creation in an empty store, its processing in the
  environment whose navigation times out, each of the three updates on the stored job,
  and the update to \<^verbatim>\<open>failed\<close> with a driver that refuses it.
\<close>

theorem payload_invariant_of_worker_witness:
  "create_scrape_job ex_api_env 1 0 ''https://a.test/x'' None \<lparr> docs = [], ops = [] \<rparr> =
     (Inr ex_job, \<lparr> docs = [ex_job], ops = [OpInsert 1, OpFindOne 1] \<rparr>)
   \<and> status ex_job = PENDING \<and> result ex_job = None \<and> error ex_job = None
   \<and> result_error_invariant ex_job
   \<and> find_one 1 (docs ex_store) = Some ex_job
   \<and> status ex_job \<in> {PENDING, IN_PROGRESS}
   \<and> ex_result \<noteq> [] \<and> ''Timeout 30000ms exceeded.'' \<noteq> []
   \<and> \<not> update_raises ex_store_env 1 COMPLETED \<and> \<not> update_raises ex_store_env 1 FAILED
   \<and> update_raises (store_env_of ex_env_store_down) 1 FAILED
   \<and> fst (fetch_job ex_env ex_cfg ex_job ex_worker) = Inr ex_result
   \<and> (\<exists>j1. find_one 1 (docs (update_job_status ex_store_env 1 IN_PROGRESS None None ex_store))
             = Some j1
           \<and> status j1 \<in> {PENDING, IN_PROGRESS} \<and> result j1 = None \<and> error j1 = None
           \<and> result_error_invariant j1)
   \<and> (\<exists>j1. find_one 1 (docs (update_job_status ex_store_env 1 COMPLETED (Some ex_result) None ex_store))
             = Some j1
           \<and> status j1 = COMPLETED \<and> result j1 = Some ex_result \<and> error j1 = None
           \<and> result_error_invariant j1)
   \<and> (\<exists>j1. find_one 1 (docs (update_job_status ex_store_env 1 FAILED None
                (Some ''Timeout 30000ms exceeded.'') ex_store))
             = Some j1
           \<and> status j1 = FAILED \<and> error j1 = Some ''Timeout 30000ms exceeded.''
           \<and> result j1 = None \<and> result_error_invariant j1)
   \<and> update_job_status (store_env_of ex_env_store_down) 1 FAILED None
        (Some ''Timeout 30000ms exceeded.'') ex_store = ex_store
   \<and> snd (snd (process_single_job ex_env_timeout ex_cfg ex_job (ex_worker, ex_store))) =
        update_job_status (store_env_of ex_env_timeout) (jid ex_job) FAILED None
          (Some ''Timeout 30000ms exceeded.'')
          (update_job_status (store_env_of ex_env_timeout) (jid ex_job) IN_PROGRESS None None
             ex_store)"
proof -
  have c: "create_scrape_job ex_api_env 1 0 ''https://a.test/x'' None \<lparr> docs = [], ops = [] \<rparr> =
     (Inr ex_job, \<lparr> docs = [ex_job], ops = [OpInsert 1, OpFindOne 1] \<rparr>)"
    by (simp add: create_scrape_job_def validate_url_def ex_job_def ex_api_env_def Let_def)
  have f: "find_one 1 (docs ex_store) = Some ex_job" by (simp add: ex_store_def ex_job_def)
  have s: "status ex_job \<in> {PENDING, IN_PROGRESS}" "result ex_job = None" "error ex_job = None"
    by (simp_all add: ex_job_def)
  have n: "ex_result \<noteq> []" "''Timeout 30000ms exceeded.'' \<noteq> []"
    by (simp_all add: ex_result_nonempty)
  have u: "\<not> update_raises ex_store_env 1 COMPLETED" "\<not> update_raises ex_store_env 1 FAILED"
    by (simp_all add: ex_store_env_def)
  have d: "update_raises (store_env_of ex_env_store_down) 1 FAILED"
    by (simp add: ex_env_store_down_def)
  have o: "fst (fetch_job ex_env ex_cfg ex_job ex_worker) = Inr ex_result"
    by (simp add: ex_fetch_ok ex_worker_def)
  note t = payload_invariant_of_worker [of ex_api_env 1 0 "''https://a.test/x''" None
      "\<lparr> docs = [], ops = [] \<rparr>" ex_env_timeout ex_cfg ex_job ex_worker ex_store 1 ex_job
      ex_store_env ex_result "''Timeout 30000ms exceeded.''"]
  from t c have 1: "status ex_job = PENDING \<and> result_error_invariant ex_job" by blast
  from t f s have 2: "\<exists>j1. find_one 1 (docs (update_job_status ex_store_env 1 IN_PROGRESS None None ex_store))
             = Some j1
           \<and> status j1 \<in> {PENDING, IN_PROGRESS} \<and> result j1 = None \<and> error j1 = None
           \<and> result_error_invariant j1" by blast
  from t f n u have "\<exists>j1. find_one 1 (docs (update_job_status ex_store_env 1 COMPLETED (Some ex_result) None ex_store))
             = Some j1
           \<and> status j1 = COMPLETED \<and> result j1 = Some ex_result \<and> error j1 = error ex_job
           \<and> result_error_invariant j1 = (error ex_job = None)" by blast
  with s have 3: "\<exists>j1. find_one 1 (docs (update_job_status ex_store_env 1 COMPLETED (Some ex_result) None ex_store))
             = Some j1
           \<and> status j1 = COMPLETED \<and> result j1 = Some ex_result \<and> error j1 = None
           \<and> result_error_invariant j1" by simp
  from t f n u have "\<exists>j1. find_one 1 (docs (update_job_status ex_store_env 1 FAILED None
                (Some ''Timeout 30000ms exceeded.'') ex_store))
             = Some j1
           \<and> status j1 = FAILED \<and> error j1 = Some ''Timeout 30000ms exceeded.''
           \<and> result j1 = result ex_job \<and> result_error_invariant j1 = (result ex_job = None)"
    by blast
  with s have 4: "\<exists>j1. find_one 1 (docs (update_job_status ex_store_env 1 FAILED None
                (Some ''Timeout 30000ms exceeded.'') ex_store))
             = Some j1
           \<and> status j1 = FAILED \<and> error j1 = Some ''Timeout 30000ms exceeded.''
           \<and> result j1 = None \<and> result_error_invariant j1" by simp
  from payload_invariant_of_worker [where se="store_env_of ex_env_store_down" and i=1
      and ns=FAILED and r=None and e'="Some ''Timeout 30000ms exceeded.''" and st=ex_store] d
  have 5: "update_job_status (store_env_of ex_env_store_down) 1 FAILED None
        (Some ''Timeout 30000ms exceeded.'') ex_store = ex_store" by blast
  from t ex_fetch_timeout
  have 6: "snd (snd (process_single_job ex_env_timeout ex_cfg ex_job (ex_worker, ex_store))) =
        update_job_status (store_env_of ex_env_timeout) (jid ex_job) FAILED None
          (Some ''Timeout 30000ms exceeded.'')
          (update_job_status (store_env_of ex_env_timeout) (jid ex_job) IN_PROGRESS None None
             ex_store)" by simp
  show ?thesis using c f s n u d o 1 2 3 4 5 6 by blast
qed

section \<open>Retries\<close>

text \<open>
  C4. The navigation of the example job times out at the first attempt. The worker writes
  \<^verbatim>\<open>failed\<close> at once: the store sees the two updates \<^verbatim>\<open>in_progress\<close> and
  \<^verbatim>\<open>failed\<close> and nothing else, the browser has navigated once, and the job has been
  counted once as processed and once as failed. No second attempt is made, although the
  function carries a retry decorator for three attempts.
\<close>

theorem timeout_fails_at_first_attempt:
  "docs (snd (snd (process_single_job ex_env_timeout ex_cfg ex_job (ex_worker, ex_store)))) =
     [ex_job\<lparr> status := FAILED, updatedAt := 2, completedAt := Some 2,
              error := Some ''Timeout 30000ms exceeded.'' \<rparr>]
   \<and> ops (snd (snd (process_single_job ex_env_timeout ex_cfg ex_job (ex_worker, ex_store)))) =
       [OpUpdate 1 IN_PROGRESS, OpUpdate 1 FAILED]
   \<and> navigations (fst (snd (process_single_job ex_env_timeout ex_cfg ex_job (ex_worker, ex_store)))) =
       [''https://a.test/x'']
   \<and> jobs_processed (fst (snd (process_single_job ex_env_timeout ex_cfg ex_job (ex_worker, ex_store)))) = 1
   \<and> jobs_failed (fst (snd (process_single_job ex_env_timeout ex_cfg ex_job (ex_worker, ex_store)))) = 1"
proof -
  have w: "fst (snd (process_single_job ex_env_timeout ex_cfg ex_job (ex_worker, ex_store))) =
      ex_worker\<lparr> jobs_processed := 1, jobs_failed := 1, last_activity := 3,
                 robots_cache_of := [''https://a.test/robots.txt:bot'' \<mapsto> (True, 50)],
                 navigations := [''https://a.test/x''] \<rparr>"
    by (simp add: retry_body process_single_job_body_def fetch_job_def can_fetch_def
          can_fetch_try_def fetch_robots_def rp_read_def rp_can_fetch_def scrape_page_def ex_env_timeout_def ex_env_def
          ex_robots_env_def ex_page_env_def ex_cfg_def ex_job_def ex_worker_def Let_def)
  show ?thesis by (simp add: ex_run_timeout w)
qed

section \<open>The capacity of a tick\<close>

lemma claim_jobs_cur: "fst (claim_jobs js cur tasks) = cur \<union> jid ` set js"
  by (induction js arbitrary: cur tasks) auto

lemma claim_jobs_tasks:
  "jid ` set (snd (claim_jobs js cur tasks)) = jid ` set tasks \<union> (jid ` set js - cur)"
  by (induction js arbitrary: cur tasks) auto

lemma claim_jobs_length: "length (snd (claim_jobs js cur tasks)) \<le> length tasks + length js"
proof (induction js arbitrary: cur tasks)
  case Nil
  then show ?case by simp
next
  case (Cons j js)
  show ?case
  proof (cases "jid j \<in> cur")
    case True
    with Cons [of cur tasks] show ?thesis by simp
  next
    case False
    with Cons [of "insert (jid j) cur" "tasks @ [j]"] show ?thesis by simp
  qed
qed

lemma claim_jobs_card:
  "finite cur \<Longrightarrow>
     card (fst (claim_jobs js cur tasks)) + length tasks =
     card cur + length (snd (claim_jobs js cur tasks))"
proof (induction js arbitrary: cur tasks)
  case Nil
  then show ?case by simp
next
  case (Cons j js)
  show ?case
  proof (cases "jid j \<in> cur")
    case True
    with Cons.IH [of cur tasks] Cons.prems show ?thesis by simp
  next
    case False
    with Cons.IH [of "insert (jid j) cur" "tasks @ [j]"] Cons.prems show ?thesis by simp
  qed
qed

lemma find_pending_length: "length (find_pending n js) \<le> n"
  by (simp add: find_pending_def)

lemma gather_current_jobs:
  "current_jobs (fst (gather e cfg js ws)) = current_jobs (fst ws) - jid ` set js"
proof (induction js arbitrary: ws)
  case Nil
  then show ?case by simp
next
  case (Cons j js)
  have "current_jobs (fst (snd (process_single_job e cfg j ws))) = current_jobs (fst ws) - {jid j}"
    by (simp add: retry_body body_current_jobs)
  with Cons [of "snd (process_single_job e cfg j ws)"] show ?case by auto
qed

lemma gather_jobs_processed:
  "jobs_processed (fst (gather e cfg js ws)) = jobs_processed (fst ws) + length js"
proof (induction js arbitrary: ws)
  case Nil
  then show ?case by simp
next
  case (Cons j js)
  have "jobs_processed (fst (snd (process_single_job e cfg j ws))) = jobs_processed (fst ws) + 1"
    by (simp add: retry_body body_jobs_processed)
  with Cons [of "snd (process_single_job e cfg j ws)"] show ?case by simp
qed

lemma poll_and_claim_cases:
  assumes "poll_and_claim e cfg (w, st) = (tasks, w1, st1)"
  shows "(tasks = [] \<and> w1 = w)
       \<or> (\<not> MAX_CONCURRENT_JOBS cfg \<le> int (card (current_jobs w))
          \<and> tasks = snd (claim_jobs
               (find_pending (nat (MAX_CONCURRENT_JOBS cfg - int (card (current_jobs w)))) (docs st))
               (current_jobs w) [])
          \<and> w1 = w\<lparr> current_jobs := fst (claim_jobs
               (find_pending (nat (MAX_CONCURRENT_JOBS cfg - int (card (current_jobs w)))) (docs st))
               (current_jobs w) []) \<rparr>)"
  using assms
  by (auto simp: poll_and_claim_def Let_def split: if_splits prod.splits)

lemma poll_and_claim_fields:
  assumes "poll_and_claim e cfg (w, st) = (tasks, w1, st1)"
  shows "jobs_processed w1 = jobs_processed w"
    and "current_jobs w1 = current_jobs w \<union> jid ` set tasks"
    and "jid ` set tasks \<inter> current_jobs w = {}"
proof -
  let ?js = "find_pending (nat (MAX_CONCURRENT_JOBS cfg - int (card (current_jobs w)))) (docs st)"
  have t: "jid ` set (snd (claim_jobs ?js (current_jobs w) [])) = jid ` set ?js - current_jobs w"
    using claim_jobs_tasks [of ?js "current_jobs w" "[]"] by simp
  have c: "fst (claim_jobs ?js (current_jobs w) []) = current_jobs w \<union> jid ` set ?js"
    by (rule claim_jobs_cur)
  from poll_and_claim_cases [OF assms]
  have "jobs_processed w1 = jobs_processed w
      \<and> current_jobs w1 = current_jobs w \<union> jid ` set tasks
      \<and> jid ` set tasks \<inter> current_jobs w = {}"
  proof
    assume "tasks = [] \<and> w1 = w"
    then show ?thesis by simp
  next
    assume "\<not> MAX_CONCURRENT_JOBS cfg \<le> int (card (current_jobs w))
        \<and> tasks = snd (claim_jobs ?js (current_jobs w) [])
        \<and> w1 = w\<lparr> current_jobs := fst (claim_jobs ?js (current_jobs w) []) \<rparr>"
    then have "tasks = snd (claim_jobs ?js (current_jobs w) [])"
      "w1 = w\<lparr> current_jobs := fst (claim_jobs ?js (current_jobs w) []) \<rparr>" by blast+
    with t c have "jid ` set tasks = jid ` set ?js - current_jobs w"
      "current_jobs w1 = current_jobs w \<union> jid ` set ?js" "jobs_processed w1 = jobs_processed w"
      by simp_all
    then show ?thesis by blast
  qed
  then show "jobs_processed w1 = jobs_processed w"
    and "current_jobs w1 = current_jobs w \<union> jid ` set tasks"
    and "jid ` set tasks \<inter> current_jobs w = {}" by blast+
qed

text \<open>
  C6. In the first phase of a tick the worker gives a task to at most
  \<open>MAX_CONCURRENT_JOBS - |current_jobs|\<close> jobs. When that capacity is not positive the
  tick is skipped: no job gets a task and neither the worker nor the store changes; in
  particular the store has received no query. A set in flight that is within the limit
  stays within the limit (in any case it is no larger than the greater of its size before
  and the limit), no tick claims more jobs than the limit, and the set in flight grows by
  the claimed jobs exactly.
\<close>

theorem claims_within_capacity:
  assumes "finite (current_jobs w)"
    and "poll_and_claim e cfg (w, st) = (tasks, w1, st1)"
  shows "int (length tasks) \<le> max 0 (MAX_CONCURRENT_JOBS cfg - int (card (current_jobs w)))
     \<and> (MAX_CONCURRENT_JOBS cfg - int (card (current_jobs w)) \<le> 0
          \<longrightarrow> tasks = [] \<and> w1 = w \<and> st1 = st)
     \<and> (int (card (current_jobs w)) \<le> MAX_CONCURRENT_JOBS cfg
          \<longrightarrow> int (card (current_jobs w1)) \<le> MAX_CONCURRENT_JOBS cfg)
     \<and> int (card (current_jobs w1)) \<le> max (int (card (current_jobs w))) (MAX_CONCURRENT_JOBS cfg)
     \<and> (0 \<le> MAX_CONCURRENT_JOBS cfg \<longrightarrow> int (length tasks) \<le> MAX_CONCURRENT_JOBS cfg)
     \<and> current_jobs w1 = current_jobs w \<union> jid ` set tasks"
proof -
  let ?n = "nat (MAX_CONCURRENT_JOBS cfg - int (card (current_jobs w)))"
  let ?c = "claim_jobs (find_pending ?n (docs st)) (current_jobs w) []"
  have skip: "MAX_CONCURRENT_JOBS cfg - int (card (current_jobs w)) \<le> 0
          \<longrightarrow> tasks = [] \<and> w1 = w \<and> st1 = st"
    using assms(2) by (auto simp: poll_and_claim_def)
  have len: "length (snd ?c) \<le> ?n"
    using claim_jobs_length [of "find_pending ?n (docs st)" "current_jobs w" "[]"]
      find_pending_length [of ?n "docs st"] by simp
  have card: "card (fst ?c) = card (current_jobs w) + length (snd ?c)"
    using claim_jobs_card [OF assms(1), of "find_pending ?n (docs st)" "[]"] by simp
  from poll_and_claim_cases [OF assms(2)]
  have main: "int (length tasks) \<le> max 0 (MAX_CONCURRENT_JOBS cfg - int (card (current_jobs w)))
     \<and> (int (card (current_jobs w)) \<le> MAX_CONCURRENT_JOBS cfg
          \<longrightarrow> int (card (current_jobs w1)) \<le> MAX_CONCURRENT_JOBS cfg)
     \<and> int (card (current_jobs w1)) \<le> max (int (card (current_jobs w))) (MAX_CONCURRENT_JOBS cfg)
     \<and> (0 \<le> MAX_CONCURRENT_JOBS cfg \<longrightarrow> int (length tasks) \<le> MAX_CONCURRENT_JOBS cfg)"
  proof
    assume "tasks = [] \<and> w1 = w"
    then show ?thesis by simp
  next
    assume a: "\<not> MAX_CONCURRENT_JOBS cfg \<le> int (card (current_jobs w))
          \<and> tasks = snd ?c \<and> w1 = w\<lparr> current_jobs := fst ?c \<rparr>"
    with len card show ?thesis by auto
  qed
  show ?thesis using skip main poll_and_claim_fields(2) [OF assms(2)] by blast
qed


lemma ex_poll_two:
  "poll_and_claim ex_env ex_cfg_two (ex_worker, ex_three_jobs) =
     ([ex_job\<lparr> jid := 2, createdAt := 1 \<rparr>, ex_job\<lparr> jid := 3, createdAt := 2 \<rparr>],
      ex_worker\<lparr> current_jobs := {3, 2} \<rparr>,
      ex_three_jobs\<lparr> ops := [OpFind 2] \<rparr>)"
  by (simp add: poll_and_claim_def find_pending_def ex_env_def ex_store_env_def ex_cfg_two_def
        ex_cfg_def ex_worker_def ex_three_jobs_def ex_job_def Let_def)

lemma ex_poll_full:
  "poll_and_claim ex_env ex_cfg_two (ex_worker_full, ex_three_jobs) =
     ([], ex_worker_full, ex_three_jobs)"
  by (simp add: poll_and_claim_def ex_cfg_two_def ex_cfg_def ex_worker_full_def ex_worker_def)

text \<open>
  The theorem at a limit of two with three pending jobs in the store: an idle worker
  claims the two oldest jobs, and a worker with two jobs in flight skips the tick.
\<close>

theorem claims_within_capacity_witness:
  "finite (current_jobs ex_worker)
   \<and> poll_and_claim ex_env ex_cfg_two (ex_worker, ex_three_jobs) =
       ([ex_job\<lparr> jid := 2, createdAt := 1 \<rparr>, ex_job\<lparr> jid := 3, createdAt := 2 \<rparr>],
        ex_worker\<lparr> current_jobs := {3, 2} \<rparr>, ex_three_jobs\<lparr> ops := [OpFind 2] \<rparr>)
   \<and> length (docs ex_three_jobs) = 3 \<and> MAX_CONCURRENT_JOBS ex_cfg_two = 2
   \<and> card (current_jobs ex_worker) = 0
   \<and> int (length [ex_job\<lparr> jid := 2, createdAt := 1 \<rparr>, ex_job\<lparr> jid := 3, createdAt := 2 \<rparr>]) \<le> 2
   \<and> int (card (current_jobs (ex_worker\<lparr> current_jobs := {3, 2} \<rparr>))) \<le> 2
   \<and> finite (current_jobs ex_worker_full)
   \<and> MAX_CONCURRENT_JOBS ex_cfg_two - int (card (current_jobs ex_worker_full)) \<le> 0
   \<and> poll_and_claim ex_env ex_cfg_two (ex_worker_full, ex_three_jobs) =
       ([], ex_worker_full, ex_three_jobs)"
proof -
  have f: "finite (current_jobs ex_worker)" by (simp add: ex_worker_def)
  have c: "card (current_jobs ex_worker) = 0" by (simp add: ex_worker_def)
  have m: "MAX_CONCURRENT_JOBS ex_cfg_two = 2" by (simp add: ex_cfg_two_def)
  have l: "length (docs ex_three_jobs) = 3" by (simp add: ex_three_jobs_def)
  have f': "finite (current_jobs ex_worker_full)" by (simp add: ex_worker_full_def)
  have c': "MAX_CONCURRENT_JOBS ex_cfg_two - int (card (current_jobs ex_worker_full)) \<le> 0"
    by (simp add: ex_worker_full_def ex_cfg_two_def)
  note t = claims_within_capacity [OF f ex_poll_two]
  from t have "int (length [ex_job\<lparr> jid := 2, createdAt := 1 \<rparr>, ex_job\<lparr> jid := 3, createdAt := 2 \<rparr>])
      \<le> max 0 (MAX_CONCURRENT_JOBS ex_cfg_two - int (card (current_jobs ex_worker)))"
    by blast
  with c m
  have 1: "int (length [ex_job\<lparr> jid := 2, createdAt := 1 \<rparr>, ex_job\<lparr> jid := 3, createdAt := 2 \<rparr>]) \<le> 2"
    by simp
  from t have "int (card (current_jobs ex_worker)) \<le> MAX_CONCURRENT_JOBS ex_cfg_two
      \<longrightarrow> int (card (current_jobs (ex_worker\<lparr> current_jobs := {3, 2} \<rparr>)))
            \<le> MAX_CONCURRENT_JOBS ex_cfg_two"
    by blast
  with c m
  have 2: "int (card (current_jobs (ex_worker\<lparr> current_jobs := {3, 2} \<rparr>))) \<le> 2"
    by simp
  from claims_within_capacity [OF f' ex_poll_full] c'
  have 3: "poll_and_claim ex_env ex_cfg_two (ex_worker_full, ex_three_jobs) =
       ([], ex_worker_full, ex_three_jobs)"
    by (simp add: ex_poll_full)
  show ?thesis using f c m l f' c' ex_poll_two 1 2 3 by blast
qed

section \<open>A tick and its tasks\<close>

lemma process_jobs_fields:
  assumes "poll_and_claim e cfg ws = (tasks, w1, st1)"
  shows "current_jobs (fst (process_jobs e cfg ws)) = current_jobs (fst ws)"
    and "jid ` set tasks \<inter> current_jobs (fst (process_jobs e cfg ws)) = {}"
    and "jobs_processed (fst (process_jobs e cfg ws)) = jobs_processed (fst ws) + length tasks"
proof -
  have a: "poll_and_claim e cfg (fst ws, snd ws) = (tasks, w1, st1)" using assms by simp
  note p = poll_and_claim_fields [OF a]
  have g: "process_jobs e cfg ws = gather e cfg tasks (w1, st1)"
    using assms by (cases tasks) (simp_all add: process_jobs_def)
  have c: "current_jobs (fst (process_jobs e cfg ws)) = current_jobs w1 - jid ` set tasks"
    by (simp add: g gather_current_jobs)
  with p(2,3) show 1: "current_jobs (fst (process_jobs e cfg ws)) = current_jobs (fst ws)"
    by auto
  with p(3) show "jid ` set tasks \<inter> current_jobs (fst (process_jobs e cfg ws)) = {}" by simp
  show "jobs_processed (fst (process_jobs e cfg ws)) = jobs_processed (fst ws) + length tasks"
    by (simp add: g gather_jobs_processed p(1))
qed

lemma process_jobs_current_jobs:
  "current_jobs (fst (process_jobs e cfg ws)) = current_jobs (fst ws)"
proof -
  obtain tasks w1 st1 where "poll_and_claim e cfg ws = (tasks, w1, st1)"
    by (cases "poll_and_claim e cfg ws") auto
  then show ?thesis by (rule process_jobs_fields(1))
qed

lemma ticks_current_jobs: "current_jobs (fst (ticks es cfg ws)) = current_jobs (fst ws)"
  by (induction es arbitrary: ws) (simp_all add: process_jobs_current_jobs)

text \<open>
  C5 (as the code has it). \<^verbatim>\<open>_process_jobs\<close> awaits \<^verbatim>\<open>asyncio.gather\<close> over the tasks
  it has created. When the tick returns, each of its tasks has run to its end: the set in
  flight is again the set from before the tick, none of the claimed jobs is in it, and
  the counter of processed jobs has grown by the number of tasks. So the set in flight is
  the same at the start of every tick of the main loop.
\<close>

theorem tick_awaits_its_tasks:
  "poll_and_claim e cfg ws = (tasks, w1, st1) \<Longrightarrow>
     current_jobs (fst (process_jobs e cfg ws)) = current_jobs (fst ws)
   \<and> jid ` set tasks \<inter> current_jobs (fst (process_jobs e cfg ws)) = {}
   \<and> jobs_processed (fst (process_jobs e cfg ws)) = jobs_processed (fst ws) + length tasks
   \<and> current_jobs (fst (ticks es cfg ws)) = current_jobs (fst ws)"
  using process_jobs_fields [of e cfg ws tasks w1 st1] ticks_current_jobs [of es cfg ws]
  by blast

lemma ex_poll_one:
  "poll_and_claim ex_env ex_cfg (ex_worker, ex_store) =
     ([ex_job], ex_worker\<lparr> current_jobs := {1} \<rparr>, ex_store\<lparr> ops := [OpFind 3] \<rparr>)"
  by (simp add: poll_and_claim_def find_pending_def ex_env_def ex_store_env_def
        ex_cfg_def ex_worker_def ex_store_def ex_job_def Let_def)

lemma ex_tick:
  "current_jobs (fst (process_jobs ex_env ex_cfg (ex_worker, ex_store))) = {}"
  "docs (snd (process_jobs ex_env ex_cfg (ex_worker, ex_store))) = [ex_done_job]"
proof -
  show "current_jobs (fst (process_jobs ex_env ex_cfg (ex_worker, ex_store))) = {}"
    by (simp add: process_jobs_current_jobs ex_worker_def)
  have "snd (process_jobs ex_env ex_cfg (ex_worker, ex_store)) =
      snd (snd (process_single_job ex_env ex_cfg ex_job
        (ex_worker\<lparr> current_jobs := {1} \<rparr>, ex_store\<lparr> ops := [OpFind 3] \<rparr>)))"
    by (simp add: process_jobs_def ex_poll_one)
  also have "docs \<dots> = [ex_done_job]"
    by (simp add: retry_body body_store ex_fetch_ok ex_worker_def)
       (simp add: update_job_status_def build_update_doc_def apply_set_def ex_env_def
          ex_store_env_def ex_store_def ex_job_def ex_done_job_def ex_result_nonempty)
  finally show "docs (snd (process_jobs ex_env ex_cfg (ex_worker, ex_store))) = [ex_done_job]" .
qed

text \<open>
  C5 (as stated) fails. The tick of an idle worker over the store with the example job
  gives that job a task and puts it in flight; at the return of the tick the job is out
  of the set in flight and its stored status is \<^verbatim>\<open>completed\<close>: the loop has waited for
  the task.
\<close>

theorem tick_awaits_its_tasks_counterexample:
  "fst (poll_and_claim ex_env ex_cfg (ex_worker, ex_store)) = [ex_job]
   \<and> current_jobs (fst (snd (poll_and_claim ex_env ex_cfg (ex_worker, ex_store)))) = {jid ex_job}
   \<and> current_jobs (fst (process_jobs ex_env ex_cfg (ex_worker, ex_store))) = {}
   \<and> docs (snd (process_jobs ex_env ex_cfg (ex_worker, ex_store))) = [ex_done_job]
   \<and> status ex_done_job = COMPLETED"
  by (simp add: ex_poll_one ex_tick) (simp add: ex_job_def ex_done_job_def)

text \<open>The theorem at a tick that claims two of three pending jobs, and at two such ticks.\<close>

theorem tick_awaits_its_tasks_witness:
  "poll_and_claim ex_env ex_cfg_two (ex_worker, ex_three_jobs) =
       ([ex_job\<lparr> jid := 2, createdAt := 1 \<rparr>, ex_job\<lparr> jid := 3, createdAt := 2 \<rparr>],
        ex_worker\<lparr> current_jobs := {3, 2} \<rparr>, ex_three_jobs\<lparr> ops := [OpFind 2] \<rparr>)
   \<and> current_jobs (fst (process_jobs ex_env ex_cfg_two (ex_worker, ex_three_jobs))) = {}
   \<and> {2, 3} \<inter> current_jobs (fst (process_jobs ex_env ex_cfg_two (ex_worker, ex_three_jobs))) = {}
   \<and> jobs_processed (fst (process_jobs ex_env ex_cfg_two (ex_worker, ex_three_jobs))) = 2
   \<and> current_jobs (fst (ticks [ex_env, ex_env] ex_cfg_two (ex_worker, ex_three_jobs))) = {}"
  using tick_awaits_its_tasks [OF ex_poll_two, of "[ex_env, ex_env]"] ex_poll_two
  by (simp add: ex_worker_def)

section \<open>The outcome of a job that fails\<close>

text \<open>
  C7 (as the code has it). Whatever the outcome of the processing, the job is out of the
  set in flight afterwards, and nothing else of that set has changed. When the processing
  raises an exception with a message that is not empty and the driver accepts the update
  to \<^verbatim>\<open>failed\<close>, the stored job is failed and its error is that message; the update
  gives that on whatever the stored job is at that moment. When the driver refuses the
  update to \<^verbatim>\<open>failed\<close>, the job is left as the update to \<^verbatim>\<open>in_progress\<close> has left it.
\<close>

theorem failed_job_outcome:
  "jid j \<notin> current_jobs (fst (snd (process_single_job e cfg j (w, st))))
   \<and> current_jobs (fst (snd (process_single_job e cfg j (w, st)))) = current_jobs w - {jid j}
   \<and> (fst (fetch_job e cfg j w) = Inl msg \<and> msg \<noteq> []
         \<and> find_one (jid j) (docs st) = Some j0
         \<and> \<not> update_raises (store_env_of e) (jid j) FAILED
       \<longrightarrow> (\<exists>j1. find_one (jid j) (docs (snd (snd (process_single_job e cfg j (w, st)))))
                   = Some j1
                 \<and> status j1 = FAILED \<and> error j1 = Some msg))
   \<and> (find_one (jid j) (docs st') = Some j' \<and> msg \<noteq> []
         \<and> \<not> update_raises (store_env_of e) (jid j) FAILED
       \<longrightarrow> (\<exists>j1. find_one (jid j)
                     (docs (update_job_status (store_env_of e) (jid j) FAILED None (Some msg) st'))
                   = Some j1
                 \<and> status j1 = FAILED \<and> error j1 = Some msg))
   \<and> (fst (fetch_job e cfg j w) = Inl msg \<and> update_raises (store_env_of e) (jid j) FAILED
       \<longrightarrow> snd (snd (process_single_job e cfg j (w, st))) =
             update_job_status (store_env_of e) (jid j) IN_PROGRESS None None st)"
proof -
  have 1: "current_jobs (fst (snd (process_single_job e cfg j (w, st)))) = current_jobs w - {jid j}"
    using body_current_jobs [of e cfg j "(w, st)"] by (simp add: retry_body)
  have 2: "\<exists>j1. find_one (jid j) (docs (snd (snd (process_single_job e cfg j (w, st)))))
                   = Some j1 \<and> status j1 = FAILED \<and> error j1 = Some msg"
    if h: "fst (fetch_job e cfg j w) = Inl msg" "msg \<noteq> []"
      "find_one (jid j) (docs st) = Some j0"
      "\<not> update_raises (store_env_of e) (jid j) FAILED"
    using h
    by (simp add: retry_body body_store find_one_update_job_status build_update_doc_def
          apply_set_def)
  have 3: "\<exists>j1. find_one (jid j)
                     (docs (update_job_status (store_env_of e) (jid j) FAILED None (Some msg) st'))
                   = Some j1
                 \<and> status j1 = FAILED \<and> error j1 = Some msg"
    if h: "find_one (jid j) (docs st') = Some j'" "msg \<noteq> []"
      "\<not> update_raises (store_env_of e) (jid j) FAILED"
    using failed_update [OF h] by blast
  have 4: "snd (snd (process_single_job e cfg j (w, st))) =
             update_job_status (store_env_of e) (jid j) IN_PROGRESS None None st"
    if "fst (fetch_job e cfg j w) = Inl msg" "update_raises (store_env_of e) (jid j) FAILED"
    using that by (simp add: retry_body body_store update_refused)
  show ?thesis using 1 2 3 4 by blast
qed

text \<open>
  The theorem at the example job with the navigation that times out: with a driver that
  works, on a store in which another worker has completed the job already, and with a
  driver that refuses the update to \<^verbatim>\<open>failed\<close>.
\<close>

theorem failed_job_outcome_witness:
  "fst (fetch_job ex_env_timeout ex_cfg ex_job ex_worker) = Inl ''Timeout 30000ms exceeded.''
   \<and> ''Timeout 30000ms exceeded.'' \<noteq> []
   \<and> find_one (jid ex_job) (docs ex_store) = Some ex_job
   \<and> find_one (jid ex_job) (docs ex_done_store) = Some ex_done_job
   \<and> \<not> update_raises (store_env_of ex_env_timeout) (jid ex_job) FAILED
   \<and> fst (fetch_job ex_env_store_down ex_cfg ex_job ex_worker) = Inl ''Timeout 30000ms exceeded.''
   \<and> update_raises (store_env_of ex_env_store_down) (jid ex_job) FAILED
   \<and> jid ex_job \<notin> current_jobs (fst (snd (process_single_job ex_env_timeout ex_cfg ex_job (ex_worker, ex_store))))
   \<and> (\<exists>j1. find_one (jid ex_job)
                (docs (snd (snd (process_single_job ex_env_timeout ex_cfg ex_job (ex_worker, ex_store)))))
              = Some j1
            \<and> status j1 = FAILED \<and> error j1 = Some ''Timeout 30000ms exceeded.'')
   \<and> (\<exists>j1. find_one (jid ex_job)
                (docs (update_job_status (store_env_of ex_env_timeout) (jid ex_job) FAILED None
                   (Some ''Timeout 30000ms exceeded.'') ex_done_store))
              = Some j1
            \<and> status j1 = FAILED \<and> error j1 = Some ''Timeout 30000ms exceeded.'')
   \<and> snd (snd (process_single_job ex_env_store_down ex_cfg ex_job (ex_worker, ex_store))) =
        update_job_status (store_env_of ex_env_store_down) (jid ex_job) IN_PROGRESS None None
          ex_store"
proof -
  have u: "\<not> update_raises (store_env_of ex_env_timeout) (jid ex_job) FAILED"
    by (simp add: ex_env_timeout_def ex_env_def ex_store_env_def)
  have d: "update_raises (store_env_of ex_env_store_down) (jid ex_job) FAILED"
    by (simp add: ex_env_store_down_def)
  have n: "''Timeout 30000ms exceeded.'' \<noteq> []" by simp
  have f: "find_one (jid ex_job) (docs ex_done_store) = Some ex_done_job"
    by (simp add: ex_done_store_def ex_done_job_def ex_job_def)
  note t = failed_job_outcome [of ex_job ex_env_timeout ex_cfg ex_worker ex_store
      "''Timeout 30000ms exceeded.''" ex_job ex_done_store ex_done_job]
  from t have 1: "jid ex_job \<notin> current_jobs (fst (snd (process_single_job ex_env_timeout ex_cfg ex_job (ex_worker, ex_store))))"
    by blast
  from t ex_fetch_timeout n ex_find_job u
  have 2: "\<exists>j1. find_one (jid ex_job)
                (docs (snd (snd (process_single_job ex_env_timeout ex_cfg ex_job (ex_worker, ex_store)))))
              = Some j1
            \<and> status j1 = FAILED \<and> error j1 = Some ''Timeout 30000ms exceeded.''"
    by blast
  from t f n u
  have 3: "\<exists>j1. find_one (jid ex_job)
                (docs (update_job_status (store_env_of ex_env_timeout) (jid ex_job) FAILED None
                   (Some ''Timeout 30000ms exceeded.'') ex_done_store))
              = Some j1
            \<and> status j1 = FAILED \<and> error j1 = Some ''Timeout 30000ms exceeded.''"
    by blast
  from failed_job_outcome [of ex_job ex_env_store_down ex_cfg ex_worker ex_store
      "''Timeout 30000ms exceeded.''" ex_job ex_done_store ex_done_job] ex_fetch_store_down d
  have 4: "snd (snd (process_single_job ex_env_store_down ex_cfg ex_job (ex_worker, ex_store))) =
        update_job_status (store_env_of ex_env_store_down) (jid ex_job) IN_PROGRESS None None
          ex_store"
    by blast
  show ?thesis using ex_fetch_timeout n ex_find_job f u ex_fetch_store_down d 1 2 3 4 by blast
qed

text \<open>
  C7 (as stated) fails in two ways. When the driver raises in the update to \<^verbatim>\<open>failed\<close>,
  \<^verbatim>\<open>_update_job_status\<close> logs that and goes on: the job of the failed processing stays
  \<^verbatim>\<open>in_progress\<close>. And when the exception has an empty message, the job is failed but
  has no error, since \<^verbatim>\<open>if error:\<close> drops the empty string.
\<close>

theorem failed_job_outcome_counterexample:
  "fst (fetch_job ex_env_store_down ex_cfg ex_job ex_worker) = Inl ''Timeout 30000ms exceeded.''
   \<and> docs (snd (snd (process_single_job ex_env_store_down ex_cfg ex_job (ex_worker, ex_store)))) =
       [ex_job\<lparr> status := IN_PROGRESS, updatedAt := 1 \<rparr>]
   \<and> fst (fetch_job ex_env_no_message ex_cfg ex_job ex_worker) = Inl []
   \<and> docs (snd (snd (process_single_job ex_env_no_message ex_cfg ex_job (ex_worker, ex_store)))) =
       [ex_job\<lparr> status := FAILED, updatedAt := 2, completedAt := Some 2 \<rparr>]
   \<and> error (ex_job\<lparr> status := FAILED, updatedAt := 2, completedAt := Some 2 \<rparr>) = None"
  by (simp add: ex_fetch_store_down ex_run_store_down ex_fetch_no_message ex_run_no_message)
     (simp add: ex_job_def)

section \<open>The robots cache\<close>

text \<open>
  C8. The first call, for \<^verbatim>\<open>/x\<close>, fetches the robots file and stores the decision for
  that URL (allowed) under the key of the robots file and the agent. The second call is
  for \<^verbatim>\<open>/private\<close> on the same host, 50 seconds later and so within the TTL: it gets
  the stored decision of the first URL, allowed, although the robots file disallows
  \<^verbatim>\<open>/private\<close> for this agent and a call with an empty cache answers so.
\<close>

theorem cached_decision_serves_other_url:
  "can_fetch ex_robots_env ''https://a.test/x'' ''bot'' Map.empty =
     (Inr True, [''https://a.test/robots.txt:bot'' \<mapsto> (True, 50)])
   \<and> can_fetch ex_robots_env ''https://a.test/private'' ''bot''
        [''https://a.test/robots.txt:bot'' \<mapsto> (True, 50)] =
     (Inr True, [''https://a.test/robots.txt:bot'' \<mapsto> (True, 50)])
   \<and> rp_read ex_robots_env ''https://a.test/robots.txt'' = Inr ex_parser
   \<and> rp_can_fetch ex_robots_env ex_parser ''bot'' ''https://a.test/private'' = Inr False
   \<and> fst (can_fetch ex_robots_env ''https://a.test/private'' ''bot'' Map.empty) = Inr False"
  by (simp add: can_fetch_def can_fetch_try_def fetch_robots_def rp_read_def rp_can_fetch_def
        ex_robots_env_def ex_parser_def cache_ttl_def)

section \<open>The robots check on its error paths\<close>

text \<open>
  In the model \<^verbatim>\<open>can_fetch\<close> returns a boolean for every URL, agent, cache and
  environment, and \<^verbatim>\<open>True\<close> with the cache as it was when \<^verbatim>\<open>urlparse\<close> raises. The
  block that fetches the robots file answers \<^verbatim>\<open>True\<close> when the GET raises or has a
  status other than 200, when the parser's \<^verbatim>\<open>read\<close> raises and when its decision
  raises.
\<close>

lemma fetch_robots_fails:
  "client_get re ru = GetRaises m
     \<or> (\<exists>code. client_get re ru = GetStatus code \<and> code \<noteq> 200)
     \<or> (client_get re ru = GetStatus 200 \<and> (\<exists>m'. rp_read re ru = Inl m'))
     \<or> (client_get re ru = GetStatus 200
          \<and> (\<exists>rp m'. rp_read re ru = Inr rp \<and> rp_can_fetch re rp a u = Inl m'))
   \<Longrightarrow> fetch_robots re ru k u a c = (True, c)"
  by (auto simp: fetch_robots_def split: get_outcome.splits sum.splits)

lemma can_fetch_try_cases:
  "(\<exists>m. can_fetch_try re u a c = (Inl m, c)) \<or> (\<exists>b c'. can_fetch_try re u a c = (Inr b, c'))"
  by (auto simp: can_fetch_try_def Let_def split: sum.splits prod.splits option.splits if_splits)

lemma can_fetch_returns_boolean: "\<exists>b c'. can_fetch re u a c = (Inr b, c')"
  using can_fetch_try_cases [of re u a c] by (auto simp: can_fetch_def)

lemma can_fetch_urlparse_raises:
  "urlparse re u = Inl m \<Longrightarrow> can_fetch re u a c = (Inr True, c)"
  by (simp add: can_fetch_def can_fetch_try_def)

text \<open>
  C10. One failure of the robots check does not end in \<^verbatim>\<open>True\<close>. The GET with
  \<^verbatim>\<open>httpx\<close> is answered with 200, and the fetch that the parser then makes on its own
  is refused with 403, or fails with 503. \<^verbatim>\<open>read\<close> keeps that error to itself, the
  parser denies every URL, and \<^verbatim>\<open>can_fetch\<close> returns \<^verbatim>\<open>False\<close> and stores it for the
  TTL, for a URL that the robots file allows. The same status 403 on the first GET gives
  \<^verbatim>\<open>True\<close>.
\<close>

theorem denied_when_parser_fetch_fails:
  "client_get (ex_robots_env_refused 403) ''https://a.test/robots.txt'' = GetStatus 200
   \<and> rp_urlopen (ex_robots_env_refused 403) ''https://a.test/robots.txt'' = UrlopenHTTPError 403
   \<and> can_fetch (ex_robots_env_refused 403) ''https://a.test/x'' ''bot'' Map.empty =
       (Inr False, [''https://a.test/robots.txt:bot'' \<mapsto> (False, 50)])
   \<and> rp_urlopen (ex_robots_env_refused 503) ''https://a.test/robots.txt'' = UrlopenHTTPError 503
   \<and> can_fetch (ex_robots_env_refused 503) ''https://a.test/x'' ''bot'' Map.empty =
       (Inr False, [''https://a.test/robots.txt:bot'' \<mapsto> (False, 50)])
   \<and> rules_allow ex_robots_env ''Disallow: /private'' ''bot'' ''https://a.test/x'' = Inr True
   \<and> can_fetch (ex_robots_env\<lparr> client_get := (\<lambda>r. GetStatus 403) \<rparr>) ''https://a.test/x''
        ''bot'' Map.empty = (Inr True, Map.empty)"
  by (simp add: can_fetch_def can_fetch_try_def fetch_robots_def rp_read_def rp_can_fetch_def
        ex_robots_env_refused_def ex_robots_env_def)

section \<open>Shutdown waits for the jobs in flight\<close>









end
